theory Spec2Isabelle
  imports Complex_Main
begin

section \<open>Python values shared by both source files\<close>

text \<open>
  Python dictionaries are keyed by arbitrary hashable values. The two kinds of key that
  occur in the sources are strings (feature names, checkpoint entries) and integers
  (block indices); a string never equals an integer.
\<close>

datatype pykey = PyStr string | PyInt int

text \<open>The exceptions the modelled code can raise.\<close>

datatype error =
    KeyError pykey
  | ValueError string
  | IndexError
  | AssertionError string
  | TypeError
  | AttributeError
  | FileNotFoundError string

type_synonym 'v dict = "pykey \<rightharpoonup> 'v"

text \<open>\<^verbatim>\<open>d[k]\<close>: raises \<^verbatim>\<open>KeyError(k)\<close> when the key is absent.\<close>

definition getitem :: "'v dict \<Rightarrow> pykey \<Rightarrow> error + 'v" where
  "getitem d k = (case d k of None \<Rightarrow> Inl (KeyError k) | Some v \<Rightarrow> Inr v)"

text \<open>
  \<^verbatim>\<open>d.pop(k)\<close> with no default: raises \<^verbatim>\<open>KeyError(k)\<close> when the key is absent,
  otherwise removes the entry and returns its value. The dictionary after the call is the
  second component.
\<close>

definition pop :: "pykey \<Rightarrow> 'v dict \<Rightarrow> error + ('v \<times> 'v dict)" where
  "pop k d = (case d k of None \<Rightarrow> Inl (KeyError k) | Some v \<Rightarrow> Inr (v, d(k := None)))"


section \<open>tools/model\_deploy.py\<close>

text \<open>
  Lines 21--25 of the script. \<^verbatim>\<open>torch.load\<close> yields the checkpoint dictionary, the
  three \<^verbatim>\<open>pop\<close> calls run in order (the first missing key raises), and
  \<^verbatim>\<open>torch.save\<close> receives what is left.
\<close>

definition pop_training_state :: "'v dict \<Rightarrow> error + 'v dict" where
  "pop_training_state model_weights =
     (case pop (PyStr ''optimizer'') model_weights of
        Inl e \<Rightarrow> Inl e
      | Inr (_, w1) \<Rightarrow>
          (case pop (PyStr ''scheduler'') w1 of
             Inl e \<Rightarrow> Inl e
           | Inr (_, w2) \<Rightarrow>
               (case pop (PyStr ''iteration'') w2 of
                  Inl e \<Rightarrow> Inl e
                | Inr (_, w3) \<Rightarrow> Inr w3)))"

text \<open>
  The script as a whole, over a file system that maps a path to the dictionary stored
  there. \<open>argc\<close> is \<^verbatim>\<open>len(sys.argv)\<close>; \<open>arg_input\<close> and \<open>arg_output\<close> are the parsed
  arguments (\<^verbatim>\<open>--input\<close> has no default, so it may be \<^verbatim>\<open>None\<close>).
\<close>

record args =
  arg_input :: "string option"
  arg_output :: string

datatype 'v outcome =
    HelpExit0
  | Raised error
  | Saved "string \<rightharpoonup> 'v dict"

definition main_deploy :: "nat \<Rightarrow> args \<Rightarrow> (string \<rightharpoonup> 'v dict) \<Rightarrow> 'v outcome" where
  "main_deploy argc a files =
     (if argc < 3 then HelpExit0
      else
        (case arg_input a of
           None \<Rightarrow> Raised TypeError
         | Some path \<Rightarrow>
             (case files path of
                None \<Rightarrow> Raised (FileNotFoundError path)
              | Some model_weights \<Rightarrow>
                  (case pop_training_state model_weights of
                     Inl e \<Rightarrow> Raised e
                   | Inr w \<Rightarrow> Saved (files(arg_output a \<mapsto> w))))))"

text \<open>The four entries of a training checkpoint.\<close>

definition training_keys :: "pykey set" where
  "training_keys = {PyStr ''model'', PyStr ''optimizer'', PyStr ''scheduler'', PyStr ''iteration''}"

definition removed_keys :: "pykey set" where
  "removed_keys = {PyStr ''optimizer'', PyStr ''scheduler'', PyStr ''iteration''}"

text \<open>A concrete training checkpoint with one extra entry, for the examples.\<close>

definition ckpt_full :: "nat dict" where
  "ckpt_full = [PyStr ''model'' \<mapsto> 11, PyStr ''optimizer'' \<mapsto> 22, PyStr ''scheduler'' \<mapsto> 33,
                PyStr ''iteration'' \<mapsto> 44]"

definition ckpt_extra :: "nat dict" where
  "ckpt_extra = ckpt_full(PyStr ''amp'' \<mapsto> 55)"

definition ckpt_no_scheduler :: "nat dict" where
  "ckpt_no_scheduler = [PyStr ''model'' \<mapsto> 11, PyStr ''optimizer'' \<mapsto> 22, PyStr ''iteration'' \<mapsto> 44]"


section \<open>detectron2/modeling/backbone/efficientnet.py\<close>

subsection \<open>Strings\<close>

text \<open>\<^verbatim>\<open>str(i)\<close> for an integer, and \<^verbatim>\<open>sep.join(xs)\<close>.\<close>

definition digit :: "nat \<Rightarrow> char" where
  "digit n = ''0123456789'' ! n"

fun str_nat :: "nat \<Rightarrow> string" where
  "str_nat n = (if n < 10 then [digit n] else str_nat (n div 10) @ [digit (n mod 10)])"

definition str :: "int \<Rightarrow> string" where
  "str i = (if i < 0 then CHR ''-'' # str_nat (nat (- i)) else str_nat (nat i))"

fun join :: "string \<Rightarrow> string list \<Rightarrow> string" where
  "join sep [] = []"
| "join sep [x] = x"
| "join sep (x # y # ys) = x @ sep @ join sep (y # ys)"

subsection \<open>GlobalParams, BlockArgs and the names imported from efficientnet\_utils\<close>

text \<open>
  Floats are modelled as rationals: every float is a rational, and the arithmetic the
  code performs on them is taken without rounding. The width and depth multipliers are
  the two fields the spec's data model adds to the ones this file reads.
\<close>

record GlobalParams =
  batch_norm_momentum :: rat
  batch_norm_epsilon :: rat
  dropout_rate :: rat
  num_classes :: int
  width_coefficient :: rat
  depth_coefficient :: rat
  drop_connect_rate :: "rat option"
  image_size :: "int option"

record BlockArgs =
  kernel_size :: int
  num_repeat :: int
  input_filters :: int
  output_filters :: int
  expand_ratio :: int
  id_skip :: bool
  stride :: int
  se_ratio :: "rat option"

text \<open>
  The module efficientnet\_utils is not among the sources. Its functions that decide no
  layer of this file are parameters of the model: whatever they compute, the code below
  calls them where the source does. \<open>load_pretrained_weights\<close> copies tensors into an
  existing model; the model below carries no weights, so only its failure is visible.
\<close>

record utils =
  round_filters :: "int \<Rightarrow> GlobalParams \<Rightarrow> int"
  round_repeats :: "int \<Rightarrow> GlobalParams \<Rightarrow> int"
  get_model_params :: "string \<Rightarrow> int dict option \<Rightarrow> error + BlockArgs list \<times> GlobalParams"
  efficientnet_params :: "string \<Rightarrow> error + rat \<times> rat \<times> int \<times> rat"
  load_pretrained_weights :: "string \<Rightarrow> bool \<Rightarrow> bool \<Rightarrow> error option"

subsection \<open>Layers and symbolic activations\<close>

text \<open>
  \<^verbatim>\<open>get_same_padding_conv2d(image_size)\<close> returns the static or the dynamic
  same-padding convolution class; \<open>static_image_size\<close> records which.
\<close>

record Conv2d =
  in_channels :: int
  out_channels :: int
  conv_kernel_size :: int
  conv_stride :: int
  groups :: int
  bias :: bool
  static_image_size :: "int option"

record BatchNorm2d =
  num_features :: int
  momentum :: rat
  eps :: rat

record Linear =
  in_features :: int
  out_features_fc :: int

text \<open>
  An activation is the term of the layer applications that produced it: the model
  records which operations the code performs and in which order, not numeric values.
\<close>

datatype tensor =
    Input
  | Conv Conv2d tensor
  | BN BatchNorm2d tensor
  | Swish tensor
  | AdaptiveAvgPool tensor
  | Sigmoid tensor
  | Mul tensor tensor
  | DropConnect rat bool tensor
  | Add tensor tensor
  | Flatten tensor
  | Dropout rat tensor
  | Fc Linear tensor

text \<open>A module's parameters: name and \<^verbatim>\<open>requires_grad\<close>, in registration order.\<close>

type_synonym parameters = "(string \<times> bool) list"

definition new_parameters :: "string list \<Rightarrow> parameters" where
  "new_parameters names = map (\<lambda>n. (n, True)) names"

definition freeze_parameters :: "parameters \<Rightarrow> parameters" where
  "freeze_parameters ps = map (\<lambda>(n, _). (n, False)) ps"

definition all_trainable :: "parameters \<Rightarrow> bool" where
  "all_trainable ps = list_all snd ps"

definition all_frozen :: "parameters \<Rightarrow> bool" where
  "all_frozen ps = list_all (\<lambda>p. \<not> snd p) ps"

subsection \<open>MBConvBlock\<close>

record MBConvBlock =
  block_args :: BlockArgs
  bn_mom :: rat
  bn_eps :: rat
  has_se :: bool
  block_id_skip :: bool
  expand_conv :: "Conv2d option"
  bn0 :: "BatchNorm2d option"
  depthwise_conv :: Conv2d
  bn1 :: BatchNorm2d
  se_reduce :: "Conv2d option"
  se_expand :: "Conv2d option"
  project_conv :: Conv2d
  bn2 :: BatchNorm2d
  training :: bool
  block_parameters :: parameters

text \<open>\<^verbatim>\<open>int(x)\<close> on a float truncates towards zero.\<close>

definition py_int :: "rat \<Rightarrow> int" where
  "py_int q = (if 0 \<le> q then \<lfloor>q\<rfloor> else \<lceil>q\<rceil>)"

text \<open>Line 41.\<close>

definition compute_has_se :: "BlockArgs \<Rightarrow> bool" where
  "compute_has_se ba = (case se_ratio ba of None \<Rightarrow> False | Some r \<Rightarrow> 0 < r \<and> r \<le> 1)"

text \<open>Line 64.\<close>

definition num_squeezed_channels :: "BlockArgs \<Rightarrow> rat \<Rightarrow> int" where
  "num_squeezed_channels ba r = max 1 (py_int (of_int (input_filters ba) * r))"

text \<open>
  \<^verbatim>\<open>MBConvBlock.__init__\<close>, lines 36--72. The expansion layers exist only when the
  expand ratio is not 1, the squeeze-excite layers only when \<open>has_se\<close>. A convolution
  declared without \<^verbatim>\<open>bias=False\<close> has a bias; a fresh module is in training mode
  and all its parameters require gradients.
\<close>

definition MBConvBlock_init :: "BlockArgs \<Rightarrow> GlobalParams \<Rightarrow> MBConvBlock" where
  "MBConvBlock_init ba gp =
     (let mom = 1 - batch_norm_momentum gp;
          ep = batch_norm_epsilon gp;
          se = compute_has_se ba;
          isz = image_size gp;
          inp = input_filters ba;
          oup = input_filters ba * expand_ratio ba;
          k = kernel_size ba;
          s = stride ba;
          final_oup = output_filters ba
      in \<lparr> block_args = ba,
           bn_mom = mom,
           bn_eps = ep,
           has_se = se,
           block_id_skip = id_skip ba,
           expand_conv =
             (if expand_ratio ba \<noteq> 1
              then Some \<lparr> in_channels = inp, out_channels = oup, conv_kernel_size = 1,
                          conv_stride = 1, groups = 1, bias = False, static_image_size = isz \<rparr>
              else None),
           bn0 =
             (if expand_ratio ba \<noteq> 1
              then Some \<lparr> num_features = oup, momentum = mom, eps = ep \<rparr>
              else None),
           depthwise_conv =
             \<lparr> in_channels = oup, out_channels = oup, conv_kernel_size = k,
               conv_stride = s, groups = oup, bias = False, static_image_size = isz \<rparr>,
           bn1 = \<lparr> num_features = oup, momentum = mom, eps = ep \<rparr>,
           se_reduce =
             (case se_ratio ba of
                None \<Rightarrow> None
              | Some r \<Rightarrow>
                  if se
                  then Some \<lparr> in_channels = oup, out_channels = num_squeezed_channels ba r,
                              conv_kernel_size = 1, conv_stride = 1, groups = 1, bias = True,
                              static_image_size = isz \<rparr>
                  else None),
           se_expand =
             (case se_ratio ba of
                None \<Rightarrow> None
              | Some r \<Rightarrow>
                  if se
                  then Some \<lparr> in_channels = num_squeezed_channels ba r, out_channels = oup,
                              conv_kernel_size = 1, conv_stride = 1, groups = 1, bias = True,
                              static_image_size = isz \<rparr>
                  else None),
           project_conv =
             \<lparr> in_channels = oup, out_channels = final_oup, conv_kernel_size = 1,
               conv_stride = 1, groups = 1, bias = False, static_image_size = isz \<rparr>,
           bn2 = \<lparr> num_features = final_oup, momentum = mom, eps = ep \<rparr>,
           training = True,
           block_parameters =
             new_parameters
               ((if expand_ratio ba \<noteq> 1
                 then [''_expand_conv.weight'', ''_bn0.weight'', ''_bn0.bias''] else [])
                @ [''_depthwise_conv.weight'', ''_bn1.weight'', ''_bn1.bias'']
                @ (if se
                   then [''_se_reduce.weight'', ''_se_reduce.bias'',
                         ''_se_expand.weight'', ''_se_expand.bias''] else [])
                @ [''_project_conv.weight'', ''_bn2.weight'', ''_bn2.bias'']) \<rparr>)"

text \<open>
  \<^verbatim>\<open>MBConvBlock.forward\<close>, lines 74--101. Reading a layer attribute that the
  constructor did not create raises AttributeError. \<^verbatim>\<open>if drop_connect_rate:\<close> is
  false for \<^verbatim>\<open>None\<close> and for zero.
\<close>

definition expansion_phase :: "MBConvBlock \<Rightarrow> tensor \<Rightarrow> error + tensor" where
  "expansion_phase b inputs =
     (if expand_ratio (block_args b) \<noteq> 1
      then (case expand_conv b of
              None \<Rightarrow> Inl AttributeError
            | Some c \<Rightarrow>
                (case bn0 b of
                   None \<Rightarrow> Inl AttributeError
                 | Some n \<Rightarrow> Inr (Swish (BN n (Conv c inputs)))))
      else Inr inputs)"

definition squeeze_excite :: "MBConvBlock \<Rightarrow> tensor \<Rightarrow> error + tensor" where
  "squeeze_excite b x =
     (if has_se b
      then (case se_reduce b of
              None \<Rightarrow> Inl AttributeError
            | Some r \<Rightarrow>
                (case se_expand b of
                   None \<Rightarrow> Inl AttributeError
                 | Some e \<Rightarrow>
                     Inr (Mul (Sigmoid (Conv e (Swish (Conv r (AdaptiveAvgPool x))))) x)))
      else Inr x)"

definition skip_connection :: "MBConvBlock \<Rightarrow> tensor \<Rightarrow> tensor \<Rightarrow> rat option \<Rightarrow> tensor" where
  "skip_connection b x inputs dcr =
     (if block_id_skip b \<and> stride (block_args b) = 1
         \<and> input_filters (block_args b) = output_filters (block_args b)
      then Add (case dcr of
                  None \<Rightarrow> x
                | Some p \<Rightarrow> if p \<noteq> 0 then DropConnect p (training b) x else x)
               inputs
      else x)"

definition MBConvBlock_forward :: "MBConvBlock \<Rightarrow> tensor \<Rightarrow> rat option \<Rightarrow> error + tensor" where
  "MBConvBlock_forward b inputs dcr =
     (case expansion_phase b inputs of
        Inl e \<Rightarrow> Inl e
      | Inr x0 \<Rightarrow>
          (case squeeze_excite b (Swish (BN (bn1 b) (Conv (depthwise_conv b) x0))) of
             Inl e \<Rightarrow> Inl e
           | Inr x2 \<Rightarrow>
               Inr (skip_connection b (BN (bn2 b) (Conv (project_conv b) x2)) inputs dcr)))"

subsection \<open>EfficientNet: construction\<close>

text \<open>The stem is \<^verbatim>\<open>nn.Sequential(Conv2d, BatchNorm2d, swish)\<close>.\<close>

record Stem =
  stem_conv :: Conv2d
  stem_bn :: BatchNorm2d

text \<open>
  The attributes of an EfficientNet instance. \<open>out_feature_indices\<close> holds the items of
  \<^verbatim>\<open>_out_feature_indices\<close> in insertion order (its keys are the distinct names res1
  to res5). \<open>conv_stem_attr\<close> is the attribute \<^verbatim>\<open>_conv_stem\<close>, which the
  constructor does not create.
\<close>

record EfficientNet =
  global_params :: GlobalParams
  blocks_args :: "BlockArgs list"
  out_feature_strides :: "(pykey \<times> int) list"
  out_feature_channels :: "(pykey \<times> int) list"
  stem :: Stem
  stem_parameters :: parameters
  blocks :: "MBConvBlock list"
  out_feature_indices :: "(pykey \<times> int) list"
  out_indices_to_feature :: "pykey dict"
  out_features :: "pykey list"
  conv_head :: Conv2d
  head_bn1 :: BatchNorm2d
  dropout :: rat
  fc :: Linear
  conv_stem_attr :: "Conv2d option"

text \<open>Lines 156--161: the stage's arguments with scaled filters and repeat count.\<close>

definition scale_block_args :: "utils \<Rightarrow> GlobalParams \<Rightarrow> BlockArgs \<Rightarrow> BlockArgs" where
  "scale_block_args U gp ba =
     ba\<lparr> input_filters := round_filters U (input_filters ba) gp,
         output_filters := round_filters U (output_filters ba) gp,
         num_repeat := round_repeats U (num_repeat ba) gp \<rparr>"

text \<open>Lines 165--166: the arguments of the blocks after the first.\<close>

definition repeat_block_args :: "BlockArgs \<Rightarrow> BlockArgs" where
  "repeat_block_args ba =
     (if num_repeat ba > 1 then ba\<lparr> input_filters := output_filters ba, stride := 1 \<rparr> else ba)"

text \<open>
  Lines 164--168: the blocks one stage appends. \<^verbatim>\<open>range(n - 1)\<close> is empty when
  \<open>n \<le> 1\<close>.
\<close>

definition stage_blocks :: "utils \<Rightarrow> GlobalParams \<Rightarrow> BlockArgs \<Rightarrow> MBConvBlock list" where
  "stage_blocks U gp ba =
     (let ba1 = scale_block_args U gp ba;
          ba2 = repeat_block_args ba1
      in MBConvBlock_init ba1 gp
         # replicate (nat (num_repeat ba2 - 1)) (MBConvBlock_init ba2 gp))"

text \<open>
  The loop of lines 154--168. The state is the module list and the loop variable
  \<^verbatim>\<open>block_args\<close>, which line 183 reads after the loop.
\<close>

fun build_blocks ::
  "utils \<Rightarrow> GlobalParams \<Rightarrow> BlockArgs list \<Rightarrow> MBConvBlock list \<times> BlockArgs
     \<Rightarrow> MBConvBlock list \<times> BlockArgs" where
  "build_blocks U gp [] st = st"
| "build_blocks U gp (ba # rest) (bs, _) =
     build_blocks U gp rest
       (bs @ stage_blocks U gp ba, repeat_block_args (scale_block_args U gp ba))"

text \<open>Lines 170--174.\<close>

definition block_end_indices :: "utils \<Rightarrow> GlobalParams \<Rightarrow> BlockArgs list \<Rightarrow> int list" where
  "block_end_indices U gp bas =
     (let repeats = map num_repeat bas;
          round_reps = map (\<lambda>r. round_repeats U r gp) repeats
      in map (\<lambda>i. sum_list (take (i + 1) round_reps) - 1) [0..<length round_reps])"

text \<open>
  Line 175: the comprehension over \<^verbatim>\<open>range(len(block_indices))\<close>; indexing
  \<^verbatim>\<open>block_end_indices\<close> past its end raises IndexError.
\<close>

fun build_out_feature_indices ::
  "int list \<Rightarrow> (nat \<times> nat) list \<Rightarrow> (pykey \<times> int) list \<Rightarrow> error + (pykey \<times> int) list" where
  "build_out_feature_indices ends [] acc = Inr acc"
| "build_out_feature_indices ends ((i, bi) # rest) acc =
     (if bi < length ends
      then build_out_feature_indices ends rest
             (acc @ [(PyStr (''res'' @ str (int i + 1)), ends ! bi)])
      else Inl IndexError)"

text \<open>Line 176: \<^verbatim>\<open>{v: k for k, v in d.items()}\<close>; a later item overwrites.\<close>

fun invert_items :: "(pykey \<times> int) list \<Rightarrow> pykey dict \<Rightarrow> pykey dict" where
  "invert_items [] d = d"
| "invert_items ((k, v) # rest) d = invert_items rest (d(PyInt v \<mapsto> k))"

text \<open>Line 177: \<^verbatim>\<open>blocks_args[:3] + blocks_args[4:7:2]\<close>.\<close>

definition fpn_stages :: "BlockArgs list \<Rightarrow> BlockArgs list" where
  "fpn_stages bas =
     take 3 bas @ (if 4 < length bas then [bas ! 4] else [])
                @ (if 6 < length bas then [bas ! 6] else [])"

definition block_indices :: "nat list" where
  "block_indices = [0, 1, 2, 4, 6]"

text \<open>
  \<^verbatim>\<open>EfficientNet.__init__\<close>, lines 121--191. The argument is a list by its type; an
  empty one fails the second assertion.
\<close>

definition EfficientNet_init ::
  "utils \<Rightarrow> BlockArgs list \<Rightarrow> GlobalParams \<Rightarrow> pykey list option \<Rightarrow> error + EfficientNet" where
  "EfficientNet_init U bas gp ofs =
     (case bas of
        [] \<Rightarrow> Inl (AssertionError ''block args must be greater than 0'')
      | ba0 # _ \<Rightarrow>
          (let isz = image_size gp;
               mom = 1 - batch_norm_momentum gp;
               ep = batch_norm_epsilon gp;
               stem_out = round_filters U 32 gp;
               (bs, last_args) = build_blocks U gp bas ([], ba0)
           in (case build_out_feature_indices (block_end_indices U gp bas)
                      (enumerate 0 block_indices) [] of
                 Inl e \<Rightarrow> Inl e
               | Inr ofi \<Rightarrow>
                   Inr \<lparr> global_params = gp,
                         blocks_args = bas,
                         out_feature_strides =
                           [(PyStr ''stem'', 2), (PyStr ''res1'', 2), (PyStr ''res2'', 4),
                            (PyStr ''res3'', 8), (PyStr ''res4'', 16), (PyStr ''res5'', 32)],
                         out_feature_channels =
                           map (\<lambda>(i, b). (PyStr (''res'' @ str (int i + 1)),
                                           round_filters U (output_filters b) gp))
                               (enumerate 0 (fpn_stages bas)),
                         stem =
                           \<lparr> stem_conv =
                               \<lparr> in_channels = 3, out_channels = stem_out, conv_kernel_size = 3,
                                 conv_stride = 2, groups = 1, bias = False,
                                 static_image_size = isz \<rparr>,
                             stem_bn = \<lparr> num_features = stem_out, momentum = mom, eps = ep \<rparr> \<rparr>,
                         stem_parameters = new_parameters [''0.weight'', ''1.weight'', ''1.bias''],
                         blocks = bs,
                         out_feature_indices = ofi,
                         out_indices_to_feature = invert_items ofi Map.empty,
                         out_features = (case ofs of None \<Rightarrow> [PyStr ''res5''] | Some l \<Rightarrow> l),
                         conv_head =
                           \<lparr> in_channels = output_filters last_args,
                             out_channels = round_filters U 1280 gp, conv_kernel_size = 1,
                             conv_stride = 1, groups = 1, bias = False,
                             static_image_size = isz \<rparr>,
                         head_bn1 =
                           \<lparr> num_features = round_filters U 1280 gp, momentum = mom, eps = ep \<rparr>,
                         dropout = dropout_rate gp,
                         fc = \<lparr> in_features = round_filters U 1280 gp,
                                out_features_fc = num_classes gp \<rparr>,
                         conv_stem_attr = None \<rparr>)))"

subsection \<open>EfficientNet: freeze\<close>

definition freeze_block :: "MBConvBlock \<Rightarrow> MBConvBlock" where
  "freeze_block b = b\<lparr> block_parameters := freeze_parameters (block_parameters b) \<rparr>"

text \<open>Lines 203--205: \<^verbatim>\<open>self._blocks[i]\<close> past the end raises IndexError.\<close>

fun freeze_blocks :: "nat list \<Rightarrow> MBConvBlock list \<Rightarrow> error + MBConvBlock list" where
  "freeze_blocks [] bs = Inr bs"
| "freeze_blocks (i # rest) bs =
     (if i < length bs then freeze_blocks rest (bs[i := freeze_block (bs ! i)])
      else Inl IndexError)"

text \<open>\<^verbatim>\<open>EfficientNet.freeze\<close>, lines 199--205.\<close>

definition freeze :: "EfficientNet \<Rightarrow> int \<Rightarrow> error + EfficientNet" where
  "freeze m layer_idx =
     (if layer_idx > 0
      then (let m1 = m\<lparr> stem_parameters := freeze_parameters (stem_parameters m) \<rparr>
            in (case getitem (map_of (out_feature_indices m1)) (PyStr (''res'' @ str layer_idx)) of
                  Inl e \<Rightarrow> Inl e
                | Inr n \<Rightarrow>
                    (case freeze_blocks [0..<nat n] (blocks m1) of
                       Inl e \<Rightarrow> Inl e
                     | Inr bs \<Rightarrow> Inr (m1\<lparr> blocks := bs \<rparr>))))
      else Inr m)"

subsection \<open>EfficientNet: extract\_features and forward\<close>

text \<open>
  Lines 214--216: the rate handed to the block at index \<open>idx\<close> of \<open>n\<close> blocks.
\<close>

definition block_drop_connect_rate :: "GlobalParams \<Rightarrow> nat \<Rightarrow> nat \<Rightarrow> rat option" where
  "block_drop_connect_rate gp idx n =
     (case drop_connect_rate gp of
        None \<Rightarrow> None
      | Some r \<Rightarrow> if r \<noteq> 0 then Some (r * (of_nat idx / of_nat n)) else Some r)"

text \<open>
  The loop of lines 213--221 from index \<open>idx\<close> on. The first component of the result
  logs each block call as (index, rate passed); the second is the exception raised or
  the loop's final \<open>x\<close> and \<open>outputs\<close>. Line 219 looks the integer \<open>idx\<close> up in
  \<^verbatim>\<open>_out_feature_indices\<close>.
\<close>

fun run_blocks ::
  "EfficientNet \<Rightarrow> nat \<Rightarrow> MBConvBlock list \<Rightarrow> tensor \<Rightarrow> tensor dict
     \<Rightarrow> (nat \<times> rat option) list \<times> (error + tensor \<times> tensor dict)" where
  "run_blocks m idx [] x outputs = ([], Inr (x, outputs))"
| "run_blocks m idx (block # rest) x outputs =
     (let rate = block_drop_connect_rate (global_params m) idx (length (blocks m))
      in (case MBConvBlock_forward block x rate of
            Inl e \<Rightarrow> ([(idx, rate)], Inl e)
          | Inr x' \<Rightarrow>
              (if out_indices_to_feature m (PyInt (int idx)) \<noteq> None
               then (case getitem (map_of (out_feature_indices m)) (PyInt (int idx)) of
                       Inl e \<Rightarrow> ([(idx, rate)], Inl e)
                     | Inr name \<Rightarrow>
                         (let (calls, r) =
                                run_blocks m (Suc idx) rest x'
                                  (if PyInt name \<in> set (out_features m)
                                   then outputs(PyInt name \<mapsto> x') else outputs)
                          in ((idx, rate) # calls, r)))
               else (let (calls, r) = run_blocks m (Suc idx) rest x' outputs
                     in ((idx, rate) # calls, r)))))"

definition apply_stem :: "EfficientNet \<Rightarrow> tensor \<Rightarrow> tensor" where
  "apply_stem m inputs = Swish (BN (stem_bn (stem m)) (Conv (stem_conv (stem m)) inputs))"

text \<open>\<^verbatim>\<open>EfficientNet.extract_features\<close>, lines 207--224, with the log of block calls.\<close>

definition extract_features_log ::
  "EfficientNet \<Rightarrow> tensor \<Rightarrow> (nat \<times> rat option) list \<times> (error + tensor \<times> tensor dict)" where
  "extract_features_log m inputs =
     (let x = apply_stem m inputs;
          outputs = (if PyStr ''stem'' \<in> set (out_features m)
                     then [PyStr ''stem'' \<mapsto> x] else Map.empty);
          (calls, r) = run_blocks m 0 (blocks m) x outputs
      in (calls,
          (case r of
             Inl e \<Rightarrow> Inl e
           | Inr (x', outs) \<Rightarrow> Inr (Swish (BN (head_bn1 m) (Conv (conv_head m) x')), outs))))"

definition extract_features :: "EfficientNet \<Rightarrow> tensor \<Rightarrow> error + tensor \<times> tensor dict" where
  "extract_features m inputs = snd (extract_features_log m inputs)"

text \<open>\<^verbatim>\<open>EfficientNet.forward\<close>, lines 226--239.\<close>

definition EfficientNet_forward :: "EfficientNet \<Rightarrow> tensor \<Rightarrow> error + tensor dict" where
  "EfficientNet_forward m inp =
     (case extract_features m inp of
        Inl e \<Rightarrow> Inl e
      | Inr (x, outputs) \<Rightarrow>
          (let y = Fc (fc m) (Dropout (dropout m) (Flatten (AdaptiveAvgPool x)))
           in Inr (if PyStr ''linear'' \<in> set (out_features m)
                   then outputs(PyStr ''linear'' \<mapsto> y) else outputs)))"

subsection \<open>EfficientNet: construction by name\<close>

text \<open>Lines 263--268.\<close>

definition valid_models :: "string list" where
  "valid_models = map (\<lambda>i. ''efficientnet-b'' @ str (int i)) [0..<9]"

definition check_model_name_is_valid :: "string \<Rightarrow> error + unit" where
  "check_model_name_is_valid model_name =
     (if model_name \<notin> set valid_models
      then Inl (ValueError (''model_name should be one of: '' @ join '', '' valid_models))
      else Inr ())"

text \<open>Lines 241--245.\<close>

definition from_name ::
  "utils \<Rightarrow> string \<Rightarrow> int dict option \<Rightarrow> pykey list option \<Rightarrow> error + EfficientNet" where
  "from_name U model_name override_params ofs =
     (case check_model_name_is_valid model_name of
        Inl e \<Rightarrow> Inl e
      | Inr _ \<Rightarrow>
          (case get_model_params U model_name override_params of
             Inl e \<Rightarrow> Inl e
           | Inr (bas, gp) \<Rightarrow> EfficientNet_init U bas gp ofs))"

text \<open>
  Lines 247--255. The new convolution of line 254 is assigned to the attribute
  \<^verbatim>\<open>_conv_stem\<close>.
\<close>

definition from_pretrained ::
  "utils \<Rightarrow> string \<Rightarrow> bool \<Rightarrow> int \<Rightarrow> int \<Rightarrow> pykey list option \<Rightarrow> error + EfficientNet" where
  "from_pretrained U model_name advprop n_classes in_ch ofs =
     (case from_name U model_name (Some [PyStr ''num_classes'' \<mapsto> n_classes]) ofs of
        Inl e \<Rightarrow> Inl e
      | Inr model \<Rightarrow>
          (case load_pretrained_weights U model_name (n_classes = 1000) advprop of
             Some e \<Rightarrow> Inl e
           | None \<Rightarrow>
               (if in_ch \<noteq> 3
                then Inr (model\<lparr> conv_stem_attr :=
                            Some \<lparr> in_channels = in_ch,
                                   out_channels = round_filters U 32 (global_params model),
                                   conv_kernel_size = 3, conv_stride = 2, groups = 1,
                                   bias = False,
                                   static_image_size = image_size (global_params model) \<rparr> \<rparr>)
                else Inr model)))"

text \<open>Lines 257--261.\<close>

definition get_image_size :: "utils \<Rightarrow> string \<Rightarrow> error + int" where
  "get_image_size U model_name =
     (case check_model_name_is_valid model_name of
        Inl e \<Rightarrow> Inl e
      | Inr _ \<Rightarrow>
          (case efficientnet_params U model_name of
             Inl e \<Rightarrow> Inl e
           | Inr (_, _, res, _) \<Rightarrow> Inr res))"

subsection \<open>Example inputs\<close>

text \<open>
  Modelled from the spec: \<^verbatim>\<open>round_repeats\<close> and \<^verbatim>\<open>round_filters\<close> of the
  absent module efficientnet\_utils, used only to instantiate the parameters at the
  concrete examples below. The spec: the repeat count is the ceiling of the depth
  multiplier times the base count, at least 1; the channel count is the base count times
  the width multiplier, rounded to the nearest multiple of 8 and raised by 8 when that
  fell more than 10 percent below.
\<close>

definition round_repeats_spec :: "int \<Rightarrow> GlobalParams \<Rightarrow> int" where
  "round_repeats_spec repeats gp = max 1 \<lceil>depth_coefficient gp * of_int repeats\<rceil>"

definition round_filters_spec :: "int \<Rightarrow> GlobalParams \<Rightarrow> int" where
  "round_filters_spec filters gp =
     (let x = width_coefficient gp * of_int filters;
          n = max 8 (\<lfloor>x + 4\<rfloor> div 8 * 8)
      in if of_int n < 9 / 10 * x then n + 8 else n)"

text \<open>
  A stage with squeeze-excite ratio 0.25 and the skip flag set, given as repeat count,
  kernel size, stride, expand ratio, input and output filters.
\<close>

definition stage :: "int \<Rightarrow> int \<Rightarrow> int \<Rightarrow> int \<Rightarrow> int \<Rightarrow> int \<Rightarrow> BlockArgs" where
  "stage r k s e inp outp =
     \<lparr> kernel_size = k, num_repeat = r, input_filters = inp, output_filters = outp,
       expand_ratio = e, id_skip = True, stride = s, se_ratio = Some (1 / 4) \<rparr>"

text \<open>The seven stages of EfficientNet-B0 (repeat counts 1, 2, 2, 3, 3, 4, 1).\<close>

definition blocks_args_b0 :: "BlockArgs list" where
  "blocks_args_b0 =
     [stage 1 3 1 1 32 16, stage 2 3 2 6 16 24, stage 2 5 2 6 24 40, stage 3 3 2 6 40 80,
      stage 3 5 1 6 80 112, stage 4 5 2 6 112 192, stage 1 3 1 6 192 320]"

definition global_params_b0 :: GlobalParams where
  "global_params_b0 =
     \<lparr> batch_norm_momentum = 99 / 100, batch_norm_epsilon = 1 / 1000, dropout_rate = 1 / 5,
       num_classes = 1000, width_coefficient = 1, depth_coefficient = 1,
       drop_connect_rate = Some (1 / 5), image_size = Some 224 \<rparr>"

text \<open>
  Seven stages with repeat counts 2, 1, 1, 1, 1, 1, 1 (eight blocks) and drop-connect
  rate 0.25: with these every rate the loop computes is exact in binary floating point.
\<close>

definition blocks_args_small :: "BlockArgs list" where
  "blocks_args_small =
     [stage 2 3 1 1 32 16, stage 1 3 2 6 16 24, stage 1 5 2 6 24 40, stage 1 3 2 6 40 80,
      stage 1 5 1 6 80 112, stage 1 5 2 6 112 192, stage 1 3 1 6 192 320]"

definition global_params_small :: GlobalParams where
  "global_params_small = global_params_b0\<lparr> drop_connect_rate := Some (1 / 4) \<rparr>"

definition override_num_classes :: "int dict option \<Rightarrow> GlobalParams \<Rightarrow> GlobalParams" where
  "override_num_classes ov gp =
     (case ov of
        None \<Rightarrow> gp
      | Some d \<Rightarrow> (case d (PyStr ''num_classes'') of None \<Rightarrow> gp | Some n \<Rightarrow> gp\<lparr> num_classes := n \<rparr>))"

text \<open>
  An instance of the imported names: the B0 table for every name, weights that always
  load.
\<close>

definition utils_b0 :: utils where
  "utils_b0 =
     \<lparr> round_filters = round_filters_spec,
       round_repeats = round_repeats_spec,
       get_model_params = (\<lambda>name ov. Inr (blocks_args_b0, override_num_classes ov global_params_b0)),
       efficientnet_params = (\<lambda>name. Inr (1, 1, 224, 1 / 5)),
       load_pretrained_weights = (\<lambda>name load_fc advprop. None) \<rparr>"

definition model_b0 :: "error + EfficientNet" where
  "model_b0 = EfficientNet_init utils_b0 blocks_args_b0 global_params_b0 (Some [PyStr ''res5''])"

definition model_small :: "error + EfficientNet" where
  "model_small =
     EfficientNet_init utils_b0 blocks_args_small global_params_small (Some [PyStr ''res5''])"

text \<open>
  Views of a model used to state the examples: the index of the first block of every
  stage, which blocks have every (respectively no) parameter requiring gradients, and
  stride, input and output channel count of every block.
\<close>

definition stage_first_indices :: "utils \<Rightarrow> GlobalParams \<Rightarrow> BlockArgs list \<Rightarrow> nat list" where
  "stage_first_indices U gp bas =
     map (\<lambda>i. length (concat (map (stage_blocks U gp) (take i bas)))) [0..<length bas]"

definition frozen_flags :: "EfficientNet \<Rightarrow> bool list" where
  "frozen_flags m = map (\<lambda>b. all_frozen (block_parameters b)) (blocks m)"

definition trainable_flags :: "EfficientNet \<Rightarrow> bool list" where
  "trainable_flags m = map (\<lambda>b. all_trainable (block_parameters b)) (blocks m)"

definition block_shape :: "MBConvBlock \<Rightarrow> int \<times> int \<times> int" where
  "block_shape b =
     (stride (block_args b), input_filters (block_args b), output_filters (block_args b))"

text \<open>\<^verbatim>\<open>EfficientNet.from_pretrained('efficientnet-b0', in_channels=1)\<close>.\<close>

definition model_gray :: "error + EfficientNet" where
  "model_gray = from_pretrained utils_b0 ''efficientnet-b0'' False 1000 1 None"

section \<open>Checkpoint deployment: what the three pops do\<close>

lemma pop_present:
  "d k = Some v \<Longrightarrow> pop k d = Inr (v, d(k := None))"
  by (simp add: pop_def)

lemma pop_absent:
  "d k = None \<Longrightarrow> pop k d = Inl (KeyError k)"
  by (simp add: pop_def)

lemma pop_training_state_ok:
  assumes "PyStr ''optimizer'' \<in> dom d" "PyStr ''scheduler'' \<in> dom d" "PyStr ''iteration'' \<in> dom d"
  shows "pop_training_state d =
           Inr (d(PyStr ''optimizer'' := None, PyStr ''scheduler'' := None, PyStr ''iteration'' := None))"
proof -
  from assms obtain a b c where
    a: "d (PyStr ''optimizer'') = Some a" and b: "d (PyStr ''scheduler'') = Some b"
    and c: "d (PyStr ''iteration'') = Some c"
    by auto
  show ?thesis
    by (simp add: pop_training_state_def pop_def a b c)
qed

lemma pop_training_state_missing:
  assumes "k \<in> removed_keys" "k \<notin> dom d"
  shows "\<exists>k'. pop_training_state d = Inl (KeyError k')"
  using assms
  by (auto simp: pop_training_state_def pop_def removed_keys_def domIff
           split: option.splits)

text \<open>
  C6. Given a checkpoint whose keys are exactly model, optimizer, scheduler and
  iteration, the script saves a dictionary whose only key is model, with the input's
  value; given a checkpoint that lacks one of optimizer, scheduler, iteration, the script
  raises KeyError and saves nothing.
\<close>

theorem deploy_training_checkpoint:
  assumes "3 \<le> argc" "arg_input a = Some p" "files p = Some d"
  shows "(dom d = training_keys \<longrightarrow>
           (\<exists>w. pop_training_state d = Inr w \<and> dom w = {PyStr ''model''}
                \<and> w (PyStr ''model'') = d (PyStr ''model'')
                \<and> main_deploy argc a files = Saved (files(arg_output a \<mapsto> w))))
       \<and> (\<not> removed_keys \<subseteq> dom d \<longrightarrow>
           (\<exists>k'. pop_training_state d = Inl (KeyError k')
                 \<and> main_deploy argc a files = Raised (KeyError k')))"
proof -
  have run: "main_deploy argc a files =
      (case pop_training_state d of Inl e \<Rightarrow> Raised e | Inr w \<Rightarrow> Saved (files(arg_output a \<mapsto> w)))"
    using assms by (simp add: main_deploy_def)
  have full: "\<exists>w. pop_training_state d = Inr w \<and> dom w = {PyStr ''model''}
                \<and> w (PyStr ''model'') = d (PyStr ''model'')
                \<and> main_deploy argc a files = Saved (files(arg_output a \<mapsto> w))"
    if dom: "dom d = training_keys"
  proof -
    from dom have "PyStr ''optimizer'' \<in> dom d" "PyStr ''scheduler'' \<in> dom d" "PyStr ''iteration'' \<in> dom d"
      by (simp_all add: training_keys_def)
    then have eq: "pop_training_state d =
        Inr (d(PyStr ''optimizer'' := None, PyStr ''scheduler'' := None, PyStr ''iteration'' := None))"
      by (rule pop_training_state_ok)
    have "dom (d(PyStr ''optimizer'' := None, PyStr ''scheduler'' := None, PyStr ''iteration'' := None))
            = {PyStr ''model''}"
      using dom by (auto simp: training_keys_def)
    with eq run show ?thesis by simp
  qed
  have missing: "\<exists>k'. pop_training_state d = Inl (KeyError k')
                 \<and> main_deploy argc a files = Raised (KeyError k')"
    if "\<not> removed_keys \<subseteq> dom d"
  proof -
    from that obtain k where "k \<in> removed_keys" "k \<notin> dom d" by blast
    then have "\<exists>k'. pop_training_state d = Inl (KeyError k')"
      by (rule pop_training_state_missing)
    then obtain k' where "pop_training_state d = Inl (KeyError k')" ..
    with run show ?thesis by simp
  qed
  from full missing show ?thesis by blast
qed

theorem deploy_training_checkpoint_witness:
  "(\<exists>w. pop_training_state ckpt_full = Inr w \<and> dom w = {PyStr ''model''}
        \<and> w (PyStr ''model'') = Some 11
        \<and> main_deploy 5 \<lparr>arg_input = Some ''model.pth'', arg_output = ''model_deploy.pth''\<rparr>
             [''model.pth'' \<mapsto> ckpt_full]
            = Saved ([''model.pth'' \<mapsto> ckpt_full, ''model_deploy.pth'' \<mapsto> w]))
   \<and> (\<exists>k'. pop_training_state ckpt_no_scheduler = Inl (KeyError k')
        \<and> main_deploy 5 \<lparr>arg_input = Some ''model.pth'', arg_output = ''model_deploy.pth''\<rparr>
             [''model.pth'' \<mapsto> ckpt_no_scheduler]
            = Raised (KeyError k'))"
proof -
  have d1: "dom ckpt_full = training_keys"
    by (auto simp: ckpt_full_def training_keys_def)
  have d2: "\<not> removed_keys \<subseteq> dom ckpt_no_scheduler"
    by (simp add: ckpt_no_scheduler_def removed_keys_def)
  have v: "ckpt_full (PyStr ''model'') = Some 11"
    by (simp add: ckpt_full_def)
  have a: "\<exists>w. pop_training_state ckpt_full = Inr w \<and> dom w = {PyStr ''model''}
        \<and> w (PyStr ''model'') = ckpt_full (PyStr ''model'')
        \<and> main_deploy 5 \<lparr>arg_input = Some ''model.pth'', arg_output = ''model_deploy.pth''\<rparr>
             [''model.pth'' \<mapsto> ckpt_full]
            = Saved ([''model.pth'' \<mapsto> ckpt_full, ''model_deploy.pth'' \<mapsto> w])"
    using deploy_training_checkpoint
            [of 5 "\<lparr>arg_input = Some ''model.pth'', arg_output = ''model_deploy.pth''\<rparr>"
                "''model.pth''" "[''model.pth'' \<mapsto> ckpt_full]" ckpt_full] d1
    by simp
  have b: "\<exists>k'. pop_training_state ckpt_no_scheduler = Inl (KeyError k')
        \<and> main_deploy 5 \<lparr>arg_input = Some ''model.pth'', arg_output = ''model_deploy.pth''\<rparr>
             [''model.pth'' \<mapsto> ckpt_no_scheduler]
            = Raised (KeyError k')"
    using deploy_training_checkpoint
            [of 5 "\<lparr>arg_input = Some ''model.pth'', arg_output = ''model_deploy.pth''\<rparr>"
                "''model.pth''" "[''model.pth'' \<mapsto> ckpt_no_scheduler]" ckpt_no_scheduler] d2
    by simp
  from a b show ?thesis unfolding v by (rule conjI)
qed

text \<open>
  C10. For every checkpoint that has the keys optimizer, scheduler and iteration, the
  saved dictionary is the input with exactly those three keys removed: every other key
  keeps its value, so an input with further keys yields an output larger than the
  single model entry.
\<close>

theorem deploy_removes_exactly_three:
  assumes "3 \<le> argc" "arg_input a = Some p" "files p = Some d" "removed_keys \<subseteq> dom d"
  shows "\<exists>w. pop_training_state d = Inr w
            \<and> main_deploy argc a files = Saved (files(arg_output a \<mapsto> w))
            \<and> dom w = dom d - removed_keys
            \<and> (\<forall>k. k \<notin> removed_keys \<longrightarrow> w k = d k)"
proof -
  from assms(4) have "PyStr ''optimizer'' \<in> dom d" "PyStr ''scheduler'' \<in> dom d" "PyStr ''iteration'' \<in> dom d"
    by (auto simp: removed_keys_def)
  then have eq: "pop_training_state d =
      Inr (d(PyStr ''optimizer'' := None, PyStr ''scheduler'' := None, PyStr ''iteration'' := None))"
    by (rule pop_training_state_ok)
  have run: "main_deploy argc a files =
      Saved (files(arg_output a \<mapsto>
        d(PyStr ''optimizer'' := None, PyStr ''scheduler'' := None, PyStr ''iteration'' := None)))"
    using assms(1-3) eq by (simp add: main_deploy_def)
  have "dom (d(PyStr ''optimizer'' := None, PyStr ''scheduler'' := None, PyStr ''iteration'' := None))
          = dom d - removed_keys"
    by (auto simp: removed_keys_def)
  moreover have "\<forall>k. k \<notin> removed_keys \<longrightarrow>
      (d(PyStr ''optimizer'' := None, PyStr ''scheduler'' := None, PyStr ''iteration'' := None)) k = d k"
    by (simp add: removed_keys_def)
  ultimately show ?thesis using eq run by blast
qed

theorem deploy_removes_exactly_three_witness:
  "\<exists>w. pop_training_state ckpt_extra = Inr w
      \<and> main_deploy 5 \<lparr>arg_input = Some ''model.pth'', arg_output = ''model_deploy.pth''\<rparr>
           [''model.pth'' \<mapsto> ckpt_extra]
          = Saved ([''model.pth'' \<mapsto> ckpt_extra, ''model_deploy.pth'' \<mapsto> w])
      \<and> dom w = {PyStr ''model'', PyStr ''amp''}
      \<and> w (PyStr ''model'') = Some 11 \<and> w (PyStr ''amp'') = Some 55"
proof -
  have sub: "removed_keys \<subseteq> dom ckpt_extra"
    by (simp add: ckpt_extra_def ckpt_full_def removed_keys_def)
  have d: "dom ckpt_extra - removed_keys = {PyStr ''model'', PyStr ''amp''}"
    by (auto simp: ckpt_extra_def ckpt_full_def removed_keys_def)
  have v: "ckpt_extra (PyStr ''model'') = Some 11" "ckpt_extra (PyStr ''amp'') = Some 55"
    by (simp_all add: ckpt_extra_def ckpt_full_def)
  have n: "PyStr ''model'' \<notin> removed_keys" "PyStr ''amp'' \<notin> removed_keys"
    by (simp_all add: removed_keys_def)
  from deploy_removes_exactly_three
         [of 5 "\<lparr>arg_input = Some ''model.pth'', arg_output = ''model_deploy.pth''\<rparr>"
             "''model.pth''" "[''model.pth'' \<mapsto> ckpt_extra]" ckpt_extra, OF _ _ _ sub]
  obtain w where w: "pop_training_state ckpt_extra = Inr w"
      "main_deploy 5 \<lparr>arg_input = Some ''model.pth'', arg_output = ''model_deploy.pth''\<rparr>
           [''model.pth'' \<mapsto> ckpt_extra]
          = Saved ([''model.pth'' \<mapsto> ckpt_extra, ''model_deploy.pth'' \<mapsto> w])"
      "dom w = dom ckpt_extra - removed_keys"
      "\<forall>k. k \<notin> removed_keys \<longrightarrow> w k = ckpt_extra k"
    by auto
  from w(4) n v have "w (PyStr ''model'') = Some 11" "w (PyStr ''amp'') = Some 55"
    by simp_all
  with w d show ?thesis by auto
qed

section \<open>MBConvBlock: squeeze-excite and the residual connection\<close>

lemma expansion_phase_init:
  "expansion_phase (MBConvBlock_init ba gp) x =
     Inr (if expand_ratio ba \<noteq> 1
          then Swish (BN \<lparr> num_features = input_filters ba * expand_ratio ba,
                           momentum = 1 - batch_norm_momentum gp,
                           eps = batch_norm_epsilon gp \<rparr>
                        (Conv \<lparr> in_channels = input_filters ba,
                                out_channels = input_filters ba * expand_ratio ba,
                                conv_kernel_size = 1, conv_stride = 1, groups = 1,
                                bias = False, static_image_size = image_size gp \<rparr> x))
          else x)"
  by (simp add: expansion_phase_def MBConvBlock_init_def Let_def)

lemma squeeze_excite_init:
  "\<exists>y. squeeze_excite (MBConvBlock_init ba gp) x = Inr y"
  by (cases "se_ratio ba")
     (simp_all add: squeeze_excite_def MBConvBlock_init_def Let_def compute_has_se_def)

lemma MBConvBlock_forward_init:
  "\<exists>x2. MBConvBlock_forward (MBConvBlock_init ba gp) x dcr =
          Inr (skip_connection (MBConvBlock_init ba gp)
                 (BN (bn2 (MBConvBlock_init ba gp))
                     (Conv (project_conv (MBConvBlock_init ba gp)) x2)) x dcr)"
proof -
  obtain x0 where x0: "expansion_phase (MBConvBlock_init ba gp) x = Inr x0"
    using expansion_phase_init by blast
  obtain x2 where
    "squeeze_excite (MBConvBlock_init ba gp)
       (Swish (BN (bn1 (MBConvBlock_init ba gp))
                  (Conv (depthwise_conv (MBConvBlock_init ba gp)) x0))) = Inr x2"
    using squeeze_excite_init by blast
  with x0 have "MBConvBlock_forward (MBConvBlock_init ba gp) x dcr =
          Inr (skip_connection (MBConvBlock_init ba gp)
                 (BN (bn2 (MBConvBlock_init ba gp))
                     (Conv (project_conv (MBConvBlock_init ba gp)) x2)) x dcr)"
    by (simp add: MBConvBlock_forward_def)
  then show ?thesis ..
qed

lemma skip_connection_Add:
  "(\<exists>z. skip_connection b (BN n t) x dcr = Add z x) =
     (block_id_skip b \<and> stride (block_args b) = 1
        \<and> input_filters (block_args b) = output_filters (block_args b))"
  by (simp add: skip_connection_def)

lemma init_skip_fields:
  "block_id_skip (MBConvBlock_init ba gp) = id_skip ba"
  "block_args (MBConvBlock_init ba gp) = ba"
  by (simp_all add: MBConvBlock_init_def Let_def)

text \<open>
  C5. For every block the constructor builds and every forward call, the call returns,
  and its result is the sum of a branch with the block's input exactly when the skip
  flag is set, the stride is 1 and the input and output channel counts agree.
\<close>

theorem residual_connection_iff:
  "\<exists>y. MBConvBlock_forward (MBConvBlock_init ba gp) x dcr = Inr y
       \<and> ((\<exists>z. y = Add z x)
            = (id_skip ba \<and> stride ba = 1 \<and> input_filters ba = output_filters ba))"
proof -
  obtain x2 where run:
    "MBConvBlock_forward (MBConvBlock_init ba gp) x dcr =
       Inr (skip_connection (MBConvBlock_init ba gp)
              (BN (bn2 (MBConvBlock_init ba gp))
                  (Conv (project_conv (MBConvBlock_init ba gp)) x2)) x dcr)"
    using MBConvBlock_forward_init by blast
  have "(\<exists>z. skip_connection (MBConvBlock_init ba gp)
              (BN (bn2 (MBConvBlock_init ba gp))
                  (Conv (project_conv (MBConvBlock_init ba gp)) x2)) x dcr = Add z x)
        = (id_skip ba \<and> stride ba = 1 \<and> input_filters ba = output_filters ba)"
    by (simp only: skip_connection_Add init_skip_fields)
  with run show ?thesis by simp
qed







section \<open>Model names\<close>

lemma valid_models_eq:
  "valid_models =
     [''efficientnet-b0'', ''efficientnet-b1'', ''efficientnet-b2'', ''efficientnet-b3'',
      ''efficientnet-b4'', ''efficientnet-b5'', ''efficientnet-b6'', ''efficientnet-b7'',
      ''efficientnet-b8'']"
  by code_simp

lemma invalid_message_eq:
  "''model_name should be one of: '' @ join '', '' valid_models =
     ''model_name should be one of: efficientnet-b0, efficientnet-b1, efficientnet-b2, efficientnet-b3, efficientnet-b4, efficientnet-b5, efficientnet-b6, efficientnet-b7, efficientnet-b8''"
  by (simp add: valid_models_eq)

lemma check_invalid:
  "model_name \<notin> set valid_models \<Longrightarrow>
     check_model_name_is_valid model_name =
       Inl (ValueError (''model_name should be one of: '' @ join '', '' valid_models))"
  by (simp add: check_model_name_is_valid_def)

lemma check_valid:
  "model_name \<in> set valid_models \<Longrightarrow> check_model_name_is_valid model_name = Inr ()"
  by (simp add: check_model_name_is_valid_def)

text \<open>
  C7. For every model name outside the nine identifiers efficientnet-b0 to
  efficientnet-b8, from\_name, from\_pretrained and get\_image\_size raise the ValueError
  whose message lists the nine identifiers, whatever the imported helpers would do; for
  each of the nine identifiers the validation returns without raising.
\<close>

theorem invalid_model_name_rejected:
  "(model_name \<notin> set valid_models \<longrightarrow>
      from_name U model_name ov ofs =
        Inl (ValueError ''model_name should be one of: efficientnet-b0, efficientnet-b1, efficientnet-b2, efficientnet-b3, efficientnet-b4, efficientnet-b5, efficientnet-b6, efficientnet-b7, efficientnet-b8'')
      \<and> from_pretrained U model_name advprop n_classes in_ch ofs =
        Inl (ValueError ''model_name should be one of: efficientnet-b0, efficientnet-b1, efficientnet-b2, efficientnet-b3, efficientnet-b4, efficientnet-b5, efficientnet-b6, efficientnet-b7, efficientnet-b8'')
      \<and> get_image_size U model_name =
        Inl (ValueError ''model_name should be one of: efficientnet-b0, efficientnet-b1, efficientnet-b2, efficientnet-b3, efficientnet-b4, efficientnet-b5, efficientnet-b6, efficientnet-b7, efficientnet-b8''))
   \<and> (model_name \<in> set valid_models \<longrightarrow> check_model_name_is_valid model_name = Inr ())
   \<and> set valid_models =
       {''efficientnet-b0'', ''efficientnet-b1'', ''efficientnet-b2'', ''efficientnet-b3'',
        ''efficientnet-b4'', ''efficientnet-b5'', ''efficientnet-b6'', ''efficientnet-b7'',
        ''efficientnet-b8''}"
proof (intro conjI impI)
  assume bad: "model_name \<notin> set valid_models"
  have c: "check_model_name_is_valid model_name =
      Inl (ValueError ''model_name should be one of: efficientnet-b0, efficientnet-b1, efficientnet-b2, efficientnet-b3, efficientnet-b4, efficientnet-b5, efficientnet-b6, efficientnet-b7, efficientnet-b8'')"
    using check_invalid [OF bad] by (simp only: invalid_message_eq)
  show n: "from_name U model_name ov ofs =
      Inl (ValueError ''model_name should be one of: efficientnet-b0, efficientnet-b1, efficientnet-b2, efficientnet-b3, efficientnet-b4, efficientnet-b5, efficientnet-b6, efficientnet-b7, efficientnet-b8'')"
    for ov
    by (simp add: from_name_def c)
  show "from_pretrained U model_name advprop n_classes in_ch ofs =
      Inl (ValueError ''model_name should be one of: efficientnet-b0, efficientnet-b1, efficientnet-b2, efficientnet-b3, efficientnet-b4, efficientnet-b5, efficientnet-b6, efficientnet-b7, efficientnet-b8'')"
    by (simp add: from_pretrained_def n)
  show "get_image_size U model_name =
      Inl (ValueError ''model_name should be one of: efficientnet-b0, efficientnet-b1, efficientnet-b2, efficientnet-b3, efficientnet-b4, efficientnet-b5, efficientnet-b6, efficientnet-b7, efficientnet-b8'')"
    by (simp add: get_image_size_def c)
next
  assume "model_name \<in> set valid_models"
  then show "check_model_name_is_valid model_name = Inr ()"
    by (rule check_valid)
next
  show "set valid_models =
       {''efficientnet-b0'', ''efficientnet-b1'', ''efficientnet-b2'', ''efficientnet-b3'',
        ''efficientnet-b4'', ''efficientnet-b5'', ''efficientnet-b6'', ''efficientnet-b7'',
        ''efficientnet-b8''}"
    by (simp add: valid_models_eq)
qed

theorem invalid_model_name_rejected_witness:
  "from_name utils_b0 ''efficientnet-b9'' None None =
     Inl (ValueError ''model_name should be one of: efficientnet-b0, efficientnet-b1, efficientnet-b2, efficientnet-b3, efficientnet-b4, efficientnet-b5, efficientnet-b6, efficientnet-b7, efficientnet-b8'')
   \<and> from_pretrained utils_b0 ''efficientnet-b9'' False 1000 3 None =
     Inl (ValueError ''model_name should be one of: efficientnet-b0, efficientnet-b1, efficientnet-b2, efficientnet-b3, efficientnet-b4, efficientnet-b5, efficientnet-b6, efficientnet-b7, efficientnet-b8'')
   \<and> get_image_size utils_b0 ''efficientnet-b9'' =
     Inl (ValueError ''model_name should be one of: efficientnet-b0, efficientnet-b1, efficientnet-b2, efficientnet-b3, efficientnet-b4, efficientnet-b5, efficientnet-b6, efficientnet-b7, efficientnet-b8'')
   \<and> check_model_name_is_valid ''efficientnet-b0'' = Inr ()
   \<and> check_model_name_is_valid ''efficientnet-b8'' = Inr ()"
proof -
  have bad: "''efficientnet-b9'' \<notin> set valid_models"
    by (simp add: valid_models_eq)
  have good: "''efficientnet-b0'' \<in> set valid_models" "''efficientnet-b8'' \<in> set valid_models"
    by (simp_all add: valid_models_eq)
  note t = invalid_model_name_rejected [of "''efficientnet-b9''" utils_b0 None None False 1000 3]
  note g0 = invalid_model_name_rejected
              [of "''efficientnet-b0''" utils_b0 None None False 1000 3,
               THEN conjunct2, THEN conjunct1, rule_format, OF good(1)]
  note g8 = invalid_model_name_rejected
              [of "''efficientnet-b8''" utils_b0 None None False 1000 3,
               THEN conjunct2, THEN conjunct1, rule_format, OF good(2)]
  from t [THEN conjunct1, rule_format, OF bad] g0 g8 show ?thesis by blast
qed

section \<open>Construction of the backbone\<close>

lemma build_blocks_eq:
  "build_blocks U gp bas (bs, ba0) =
     (bs @ concat (map (stage_blocks U gp) bas),
      if bas = [] then ba0 else repeat_block_args (scale_block_args U gp (last bas)))"
  by (induction bas arbitrary: bs ba0) simp_all

lemma stage_blocks_eq:
  "stage_blocks U gp ba =
     MBConvBlock_init (scale_block_args U gp ba) gp
     # replicate (nat (round_repeats U (num_repeat ba) gp - 1))
         (MBConvBlock_init
            ((scale_block_args U gp ba)
               \<lparr> input_filters := round_filters U (output_filters ba) gp, stride := 1 \<rparr>) gp)"
proof (cases "round_repeats U (num_repeat ba) gp > 1")
  case True
  then show ?thesis
    by (simp add: stage_blocks_def Let_def repeat_block_args_def scale_block_args_def)
next
  case False
  then have "nat (round_repeats U (num_repeat ba) gp - 1) = 0" by simp
  then show ?thesis
    by (simp add: stage_blocks_def Let_def repeat_block_args_def scale_block_args_def)
qed

lemma length_stage_blocks:
  "int (length (stage_blocks U gp ba)) = max 1 (round_repeats U (num_repeat ba) gp)"
  by (simp add: stage_blocks_eq)

lemma length_concat_stage_blocks:
  "int (length (concat (map (stage_blocks U gp) bas))) =
     sum_list (map (\<lambda>ba. max 1 (round_repeats U (num_repeat ba) gp)) bas)"
  by (induction bas) (simp_all add: length_stage_blocks)

lemma str_digits:
  "str 1 = ''1''" "str 2 = ''2''" "str 3 = ''3''" "str 4 = ''4''" "str 5 = ''5''"
  by (simp_all add: str_def digit_def)

lemma enumerate_block_indices:
  "enumerate 0 block_indices = [(0, 0), (1, 1), (2, 2), (3, 4), (4, 6)]"
  by (simp add: block_indices_def)

lemma build_out_feature_indices_ok:
  assumes "7 \<le> length ends"
  shows "build_out_feature_indices ends (enumerate 0 block_indices) [] =
           Inr [(PyStr ''res1'', ends ! 0), (PyStr ''res2'', ends ! 1), (PyStr ''res3'', ends ! 2),
                (PyStr ''res4'', ends ! 4), (PyStr ''res5'', ends ! 6)]"
  using assms by (auto simp: enumerate_block_indices str_digits)

lemma build_out_feature_indices_short:
  assumes "length ends < 7"
  shows "build_out_feature_indices ends (enumerate 0 block_indices) [] = Inl IndexError"
  using assms by (simp add: enumerate_block_indices)

lemma length_block_end_indices:
  "length (block_end_indices U gp bas) = length bas"
  by (simp add: block_end_indices_def Let_def)

lemma nth_block_end_indices:
  "i < length bas \<Longrightarrow>
     block_end_indices U gp bas ! i =
       sum_list (map (\<lambda>ba. round_repeats U (num_repeat ba) gp) (take (Suc i) bas)) - 1"
  by (simp add: block_end_indices_def Let_def take_map comp_def)

text \<open>
  What the constructor returns for a list of at least seven stages; with fewer (and at
  least one) line 175 raises IndexError.
\<close>

lemma EfficientNet_init_ok:
  assumes "7 \<le> length bas"
  shows "\<exists>m. EfficientNet_init U bas gp ofs = Inr m
           \<and> blocks m = concat (map (stage_blocks U gp) bas)
           \<and> out_feature_indices m =
               [(PyStr ''res1'', block_end_indices U gp bas ! 0),
                (PyStr ''res2'', block_end_indices U gp bas ! 1),
                (PyStr ''res3'', block_end_indices U gp bas ! 2),
                (PyStr ''res4'', block_end_indices U gp bas ! 4),
                (PyStr ''res5'', block_end_indices U gp bas ! 6)]
           \<and> out_indices_to_feature m = invert_items (out_feature_indices m) Map.empty
           \<and> stem_parameters m = new_parameters [''0.weight'', ''1.weight'', ''1.bias'']
           \<and> stem m =
               \<lparr> stem_conv =
                   \<lparr> in_channels = 3, out_channels = round_filters U 32 gp,
                     conv_kernel_size = 3, conv_stride = 2, groups = 1, bias = False,
                     static_image_size = image_size gp \<rparr>,
                 stem_bn = \<lparr> num_features = round_filters U 32 gp,
                             momentum = 1 - batch_norm_momentum gp,
                             eps = batch_norm_epsilon gp \<rparr> \<rparr>
           \<and> conv_stem_attr m = None
           \<and> global_params m = gp
           \<and> out_features m = (case ofs of None \<Rightarrow> [PyStr ''res5''] | Some l \<Rightarrow> l)"
proof -
  from assms obtain ba0 rest where bas: "bas = ba0 # rest"
    by (cases bas) auto
  have len: "7 \<le> length (block_end_indices U gp (ba0 # rest))"
    using assms bas by (simp add: length_block_end_indices)
  show ?thesis
    unfolding bas EfficientNet_init_def
    by (simp add: build_out_feature_indices_ok [OF len] build_blocks_eq Let_def)
qed

lemma EfficientNet_init_short:
  assumes "bas \<noteq> []" "length bas < 7"
  shows "EfficientNet_init U bas gp ofs = Inl IndexError"
proof -
  from assms obtain ba0 rest where bas: "bas = ba0 # rest"
    by (cases bas) auto
  have len: "length (block_end_indices U gp (ba0 # rest)) < 7"
    using assms bas by (simp add: length_block_end_indices)
  show ?thesis
    unfolding bas EfficientNet_init_def
    by (simp add: build_out_feature_indices_short [OF len] build_blocks_eq Let_def)
qed

text \<open>
  C9. The loop of lines 154--168 appends, stage by stage in order, one block built from
  the scaled arguments (which keep the stage's stride) followed by the scaled repeat
  count minus one further blocks with stride 1 and with the first block's output channel
  count as input channel count. When every scaled repeat count is at least 1, the number
  of blocks is their sum. For at least seven stages the constructor returns, and its
  module list is the one the loop built.
\<close>

theorem blocks_per_stage:
  "fst (build_blocks U gp bas ([], ba0)) =
         concat (map (\<lambda>ba.
           MBConvBlock_init (scale_block_args U gp ba) gp
           # replicate (nat (round_repeats U (num_repeat ba) gp - 1))
               (MBConvBlock_init
                  ((scale_block_args U gp ba)
                     \<lparr> input_filters := output_filters (scale_block_args U gp ba),
                       stride := 1 \<rparr>) gp)) bas)
     \<and> (\<forall>ba \<in> set bas.
           stride (scale_block_args U gp ba) = stride ba
         \<and> input_filters (scale_block_args U gp ba) = round_filters U (input_filters ba) gp
         \<and> output_filters (scale_block_args U gp ba) = round_filters U (output_filters ba) gp
         \<and> num_repeat (scale_block_args U gp ba) = round_repeats U (num_repeat ba) gp)
     \<and> ((\<forall>ba \<in> set bas. 1 \<le> round_repeats U (num_repeat ba) gp) \<longrightarrow>
          int (length (fst (build_blocks U gp bas ([], ba0)))) =
            sum_list (map (\<lambda>ba. round_repeats U (num_repeat ba) gp) bas))
     \<and> (7 \<le> length bas \<longrightarrow>
          (\<exists>m. EfficientNet_init U bas gp ofs = Inr m
              \<and> blocks m = fst (build_blocks U gp bas ([], ba0))))"
proof -
  have built: "fst (build_blocks U gp bas ([], ba0)) = concat (map (stage_blocks U gp) bas)"
    by (simp add: build_blocks_eq)
  have shape: "stage_blocks U gp =
      (\<lambda>ba. MBConvBlock_init (scale_block_args U gp ba) gp
           # replicate (nat (round_repeats U (num_repeat ba) gp - 1))
               (MBConvBlock_init
                  ((scale_block_args U gp ba)
                     \<lparr> input_filters := output_filters (scale_block_args U gp ba),
                       stride := 1 \<rparr>) gp))"
    by (rule ext) (simp add: stage_blocks_eq scale_block_args_def)
  have fields: "\<forall>ba \<in> set bas.
           stride (scale_block_args U gp ba) = stride ba
         \<and> input_filters (scale_block_args U gp ba) = round_filters U (input_filters ba) gp
         \<and> output_filters (scale_block_args U gp ba) = round_filters U (output_filters ba) gp
         \<and> num_repeat (scale_block_args U gp ba) = round_repeats U (num_repeat ba) gp"
    by (simp add: scale_block_args_def)
  have count: "int (length (fst (build_blocks U gp bas ([], ba0)))) =
            sum_list (map (\<lambda>ba. round_repeats U (num_repeat ba) gp) bas)"
    if "\<forall>ba \<in> set bas. 1 \<le> round_repeats U (num_repeat ba) gp"
  proof -
    have "sum_list (map (\<lambda>ba. max 1 (round_repeats U (num_repeat ba) gp)) bas) =
          sum_list (map (\<lambda>ba. round_repeats U (num_repeat ba) gp) bas)"
      using that by (induction bas) (simp_all add: max_def)
    then show ?thesis
      by (simp only: built length_concat_stage_blocks)
  qed
  have returns: "\<exists>m. EfficientNet_init U bas gp ofs = Inr m
              \<and> blocks m = fst (build_blocks U gp bas ([], ba0))"
    if "7 \<le> length bas"
    using EfficientNet_init_ok [OF that, of U gp ofs] unfolding built by blast
  from built [unfolded shape] fields count returns show ?thesis
    by (intro conjI impI)
qed

lemma model_b0_ok:
  "\<not> isl model_b0"
  by code_simp

lemma model_small_ok:
  "\<not> isl model_small"
  by code_simp

lemma model_b0_init:
  "EfficientNet_init utils_b0 blocks_args_b0 global_params_b0 (Some [PyStr ''res5''])
     = Inr (projr model_b0)"
  using model_b0_ok by (cases model_b0) (simp_all add: model_b0_def)

lemma model_small_init:
  "EfficientNet_init utils_b0 blocks_args_small global_params_small (Some [PyStr ''res5''])
     = Inr (projr model_small)"
  using model_small_ok by (cases model_small) (simp_all add: model_small_def)

lemma length_b0:
  "length blocks_args_b0 = 7"
  by (simp add: blocks_args_b0_def)

lemma length_small:
  "length blocks_args_small = 7"
  by (simp add: blocks_args_small_def)

lemma shapes_b0:
  "map block_shape (blocks (projr model_b0)) =
     [(1, 32, 16), (2, 16, 24), (1, 24, 24), (2, 24, 40), (1, 40, 40), (2, 40, 80),
      (1, 80, 80), (1, 80, 80), (1, 80, 112), (1, 112, 112), (1, 112, 112),
      (2, 112, 192), (1, 192, 192), (1, 192, 192), (1, 192, 192), (1, 192, 320)]"
  by code_simp

lemma repeats_b0:
  "\<forall>ba \<in> set blocks_args_b0. 1 \<le> round_repeats utils_b0 (num_repeat ba) global_params_b0"
  "sum_list (map (\<lambda>ba. round_repeats utils_b0 (num_repeat ba) global_params_b0)
              blocks_args_b0) = 16"
  by code_simp+

theorem blocks_per_stage_witness:
  "\<exists>m. EfficientNet_init utils_b0 blocks_args_b0 global_params_b0 (Some [PyStr ''res5'']) = Inr m
      \<and> int (length (blocks m)) = 16
      \<and> map block_shape (blocks m) =
          [(1, 32, 16), (2, 16, 24), (1, 24, 24), (2, 24, 40), (1, 40, 40), (2, 40, 80),
           (1, 80, 80), (1, 80, 80), (1, 80, 112), (1, 112, 112), (1, 112, 112),
           (2, 112, 192), (1, 192, 192), (1, 192, 192), (1, 192, 192), (1, 192, 320)]"
proof -
  have len: "7 \<le> length blocks_args_b0"
    by (simp add: length_b0)
  note t = blocks_per_stage [of utils_b0 global_params_b0 blocks_args_b0 "hd blocks_args_b0"
                              "Some [PyStr ''res5'']"]
  from t [THEN conjunct2, THEN conjunct2, THEN conjunct2, rule_format, OF len]
  obtain m where m:
      "EfficientNet_init utils_b0 blocks_args_b0 global_params_b0 (Some [PyStr ''res5'']) = Inr m"
      "blocks m = fst (build_blocks utils_b0 global_params_b0 blocks_args_b0
                         ([], hd blocks_args_b0))"
    by (elim exE conjE)
  from t [THEN conjunct2, THEN conjunct2, THEN conjunct1] repeats_b0(1)
  have "int (length (fst (build_blocks utils_b0 global_params_b0 blocks_args_b0
                            ([], hd blocks_args_b0)))) =
            sum_list (map (\<lambda>ba. round_repeats utils_b0 (num_repeat ba) global_params_b0)
                        blocks_args_b0)" ..
  then have n: "int (length (blocks m)) = 16"
    by (simp only: repeats_b0(2) m(2))
  from m(1) have "m = projr model_b0"
    by (simp add: model_b0_init)
  then have sh: "map block_shape (blocks m) =
          [(1, 32, 16), (2, 16, 24), (1, 24, 24), (2, 24, 40), (1, 40, 40), (2, 40, 80),
           (1, 80, 80), (1, 80, 80), (1, 80, 112), (1, 112, 112), (1, 112, 112),
           (2, 112, 192), (1, 192, 192), (1, 192, 192), (1, 192, 192), (1, 192, 320)]"
    by (simp only: shapes_b0)
  from m(1) n sh show ?thesis
    by (intro exI [of _ m] conjI)
qed

section \<open>Freezing\<close>

lemma freeze_blocks_append:
  "freeze_blocks (xs @ ys) bs =
     (case freeze_blocks xs bs of Inl e \<Rightarrow> Inl e | Inr bs' \<Rightarrow> freeze_blocks ys bs')"
  by (induction xs arbitrary: bs) simp_all

lemma freeze_blocks_upt:
  "n \<le> length bs \<Longrightarrow>
     freeze_blocks [0..<n] bs = Inr (map freeze_block (take n bs) @ drop n bs)"
proof (induction n)
  case 0
  then show ?case by simp
next
  case (Suc n)
  then have n: "n < length bs" by simp
  let ?bs' = "map freeze_block (take n bs) @ drop n bs"
  have prev: "freeze_blocks [0..<n] bs = Inr ?bs'"
    using Suc by simp
  have nth: "?bs' ! n = bs ! n"
    using n by (simp add: nth_append)
  have upd: "?bs'[n := freeze_block (bs ! n)] =
               map freeze_block (take (Suc n) bs) @ drop (Suc n) bs"
    using n by (simp add: list_update_append take_Suc_conv_app_nth
                          Cons_nth_drop_Suc [symmetric])
  have "freeze_blocks [0..<Suc n] bs = freeze_blocks [n] ?bs'"
    by (simp add: freeze_blocks_append prev)
  also have "\<dots> = Inr (?bs'[n := freeze_block (?bs' ! n)])"
    using n by simp
  finally show ?case
    by (simp only: nth upd)
qed

lemma freeze_nonpositive:
  "k \<le> 0 \<Longrightarrow> freeze m k = Inr m"
  by (simp add: freeze_def)

lemma sum_take_le:
  fixes f :: "'a \<Rightarrow> int"
  shows "sum_list (map f (take j xs)) \<le> sum_list (map (\<lambda>x. max 1 (f x)) xs)"
proof (induction xs arbitrary: j)
  case Nil
  then show ?case by simp
next
  case (Cons x xs)
  show ?case
  proof (cases j)
    case 0
    have "0 \<le> sum_list (map (\<lambda>x. max 1 (f x)) (x # xs))"
      by (rule sum_list_nonneg) auto
    with 0 show ?thesis by simp
  next
    case (Suc j')
    with Cons [of j'] show ?thesis by (simp add: max_def)
  qed
qed

text \<open>
  The index below which \<open>freeze k\<close> freezes: the last block of the stage at position
  \<open>block_indices ! (k - 1)\<close>, whose output is the feature res\<open>k\<close>.
\<close>

lemma boundary_le_length:
  "nat (sum_list (map (\<lambda>ba. round_repeats U (num_repeat ba) gp) (take j bas)) - 1)
     \<le> length (concat (map (stage_blocks U gp) bas))"
proof -
  have "sum_list (map (\<lambda>ba. round_repeats U (num_repeat ba) gp) (take j bas))
          \<le> int (length (concat (map (stage_blocks U gp) bas)))"
    by (simp only: length_concat_stage_blocks sum_take_le)
  then show ?thesis by linarith
qed

lemma res_lookup:
  assumes "1 \<le> k" "k \<le> 5"
  shows "map_of [(PyStr ''res1'', e1), (PyStr ''res2'', e2), (PyStr ''res3'', e3),
                 (PyStr ''res4'', e4), (PyStr ''res5'', (e5::int))] (PyStr (''res'' @ str k))
           = Some ([e1, e2, e3, e4, e5] ! nat (k - 1))"
proof -
  from assms have "k = 1 \<or> k = 2 \<or> k = 3 \<or> k = 4 \<or> k = 5" by arith
  then show ?thesis
    by (elim disjE) (simp_all add: str_digits)
qed

lemma freeze_constructed:
  assumes len: "7 \<le> length bas"
      and init: "EfficientNet_init U bas gp ofs = Inr m"
      and k: "1 \<le> k" "k \<le> 5"
  shows "freeze m k =
           Inr (m\<lparr> stem_parameters := freeze_parameters (stem_parameters m),
                   blocks :=
                     map freeze_block
                       (take (nat (sum_list (map (\<lambda>ba. round_repeats U (num_repeat ba) gp)
                                      (take (Suc (block_indices ! nat (k - 1))) bas)) - 1))
                             (blocks m))
                     @ drop (nat (sum_list (map (\<lambda>ba. round_repeats U (num_repeat ba) gp)
                                      (take (Suc (block_indices ! nat (k - 1))) bas)) - 1))
                            (blocks m) \<rparr>)"
proof -
  let ?ends = "block_end_indices U gp bas"
  let ?s = "block_indices ! nat (k - 1)"
  let ?e = "sum_list (map (\<lambda>ba. round_repeats U (num_repeat ba) gp) (take (Suc ?s) bas)) - 1"
  from EfficientNet_init_ok [OF len, of U gp ofs] init
  have bl: "blocks m = concat (map (stage_blocks U gp) bas)"
    and ofi: "out_feature_indices m =
               [(PyStr ''res1'', ?ends ! 0), (PyStr ''res2'', ?ends ! 1), (PyStr ''res3'', ?ends ! 2),
                (PyStr ''res4'', ?ends ! 4), (PyStr ''res5'', ?ends ! 6)]"
    by auto
  from k have cases: "k = 1 \<or> k = 2 \<or> k = 3 \<or> k = 4 \<or> k = 5" by arith
  then have s: "?s < length bas" "[?ends ! 0, ?ends ! 1, ?ends ! 2, ?ends ! 4, ?ends ! 6] ! nat (k - 1) = ?ends ! ?s"
    using len by (auto simp: block_indices_def)
  have "map_of (out_feature_indices m) (PyStr (''res'' @ str k)) = Some (?ends ! ?s)"
    unfolding ofi by (simp only: res_lookup [OF k] s(2))
  then have look: "getitem (map_of (out_feature_indices m)) (PyStr (''res'' @ str k)) = Inr ?e"
    by (simp add: getitem_def nth_block_end_indices [OF s(1)])
  have le: "nat ?e \<le> length (blocks m)"
    unfolding bl by (rule boundary_le_length)
  have "freeze m k =
          (case getitem (map_of (out_feature_indices m)) (PyStr (''res'' @ str k)) of
             Inl e \<Rightarrow> Inl e
           | Inr n \<Rightarrow>
               (case freeze_blocks [0..<nat n] (blocks m) of
                  Inl e \<Rightarrow> Inl e
                | Inr bs \<Rightarrow>
                    Inr (m\<lparr> stem_parameters := freeze_parameters (stem_parameters m),
                            blocks := bs \<rparr>)))"
    using k(1) by (simp add: freeze_def Let_def cong: sum.case_cong)
  also have "\<dots> =
          (case freeze_blocks [0..<nat ?e] (blocks m) of
             Inl e \<Rightarrow> Inl e
           | Inr bs \<Rightarrow>
               Inr (m\<lparr> stem_parameters := freeze_parameters (stem_parameters m),
                       blocks := bs \<rparr>))"
    unfolding look by simp
  finally show ?thesis
    unfolding freeze_blocks_upt [OF le] by simp
qed

lemma all_trainable_new [simp]:
  "all_trainable (new_parameters names)"
  by (simp add: all_trainable_def new_parameters_def list_all_iff)

lemma all_frozen_freeze [simp]:
  "all_frozen (freeze_parameters ps)"
  by (auto simp: all_frozen_def freeze_parameters_def list_all_iff)

lemma all_trainable_init:
  "all_trainable (block_parameters (MBConvBlock_init ba gp))"
  by (simp add: MBConvBlock_init_def Let_def)

lemma constructed_blocks_trainable:
  assumes "b \<in> set (concat (map (stage_blocks U gp) bas))"
  shows "all_trainable (block_parameters b)"
proof -
  from assms obtain ba where "b \<in> set (stage_blocks U gp ba)" by auto
  then obtain ba' where "b = MBConvBlock_init ba' gp"
    by (auto simp: stage_blocks_eq)
  then show ?thesis by (simp add: all_trainable_init)
qed

lemma freeze_effect_general:
  assumes len: "7 \<le> length bas"
      and init: "EfficientNet_init U bas gp ofs = Inr m"
      and k: "1 \<le> k" "k \<le> 5"
  shows "\<exists>m'. freeze m k = Inr m'
           \<and> all_frozen (stem_parameters m')
           \<and> length (blocks m') = length (blocks m)
           \<and> (\<forall>i < length (blocks m).
                 (int i < sum_list (map (\<lambda>ba. round_repeats U (num_repeat ba) gp)
                                       (take (Suc (block_indices ! nat (k - 1))) bas)) - 1
                  \<longrightarrow> blocks m' ! i = freeze_block (blocks m ! i)
                      \<and> all_frozen (block_parameters (blocks m' ! i)))
               \<and> (sum_list (map (\<lambda>ba. round_repeats U (num_repeat ba) gp)
                                       (take (Suc (block_indices ! nat (k - 1))) bas)) - 1 \<le> int i
                  \<longrightarrow> blocks m' ! i = blocks m ! i
                      \<and> all_trainable (block_parameters (blocks m' ! i))))"
proof -
  let ?e = "sum_list (map (\<lambda>ba. round_repeats U (num_repeat ba) gp)
                       (take (Suc (block_indices ! nat (k - 1))) bas)) - 1"
  let ?bs = "map freeze_block (take (nat ?e) (blocks m)) @ drop (nat ?e) (blocks m)"
  let ?m' = "m\<lparr> stem_parameters := freeze_parameters (stem_parameters m), blocks := ?bs \<rparr>"
  have fr: "freeze m k = Inr ?m'"
    by (rule freeze_constructed [OF len init k])
  from EfficientNet_init_ok [OF len, of U gp ofs] init
  have bl: "blocks m = concat (map (stage_blocks U gp) bas)" by auto
  have le: "nat ?e \<le> length (blocks m)"
    unfolding bl by (rule boundary_le_length)
  have each: "(int i < ?e
                \<longrightarrow> ?bs ! i = freeze_block (blocks m ! i)
                   \<and> all_frozen (block_parameters (?bs ! i)))
            \<and> (?e \<le> int i
                \<longrightarrow> ?bs ! i = blocks m ! i \<and> all_trainable (block_parameters (?bs ! i)))"
    if i: "i < length (blocks m)" for i
  proof (cases "int i < ?e")
    case True
    then have "i < nat ?e" by linarith
    then have "?bs ! i = freeze_block (blocks m ! i)"
      using le by (simp add: nth_append)
    with True show ?thesis by (simp add: freeze_block_def)
  next
    case False
    then have ge: "nat ?e \<le> i" by linarith
    then have eq: "?bs ! i = blocks m ! i"
      using le i by (simp add: nth_append min_def)
    have "blocks m ! i \<in> set (concat (map (stage_blocks U gp) bas))"
      using i unfolding bl [symmetric] by simp
    then have "all_trainable (block_parameters (blocks m ! i))"
      by (rule constructed_blocks_trainable)
    with False eq show ?thesis by simp
  qed
  have st: "all_frozen (stem_parameters ?m')"
    by simp
  have ln: "length (blocks ?m') = length (blocks m)"
    using le by simp
  have bs: "blocks ?m' = ?bs"
    by simp
  have all: "\<forall>i < length (blocks m).
                 (int i < ?e
                  \<longrightarrow> blocks ?m' ! i = freeze_block (blocks m ! i)
                      \<and> all_frozen (block_parameters (blocks ?m' ! i)))
               \<and> (?e \<le> int i
                  \<longrightarrow> blocks ?m' ! i = blocks m ! i
                      \<and> all_trainable (block_parameters (blocks ?m' ! i)))"
    unfolding bs using each by blast
  from fr st ln all show ?thesis
    by (intro exI [of _ ?m'] conjI)
qed

text \<open>
  C2 (amended). On a constructed backbone every parameter is trainable. freeze with
  an index of at most 0 returns the model unchanged. For an index k from 1 to 5 it
  freezes every stem parameter and every parameter of the blocks whose index is below
  e, and leaves the blocks from index e on as they were (trainable), where e is the sum
  of the scaled repeat counts of the stages up to and including the stage at position
  block\_indices[k-1], minus one: the index of the last block of the stage whose output
  is the feature res k.
\<close>

theorem freeze_effect:
  assumes "7 \<le> length bas" "EfficientNet_init U bas gp ofs = Inr m"
  shows "(k \<le> 0 \<longrightarrow> freeze m k = Inr m)
     \<and> (1 \<le> k \<and> k \<le> 5 \<longrightarrow>
          (\<exists>m'. freeze m k = Inr m'
             \<and> all_frozen (stem_parameters m')
             \<and> length (blocks m') = length (blocks m)
             \<and> (\<forall>i < length (blocks m).
                   (int i < sum_list (map (\<lambda>ba. round_repeats U (num_repeat ba) gp)
                                         (take (Suc (block_indices ! nat (k - 1))) bas)) - 1
                    \<longrightarrow> blocks m' ! i = freeze_block (blocks m ! i)
                        \<and> all_frozen (block_parameters (blocks m' ! i)))
                 \<and> (sum_list (map (\<lambda>ba. round_repeats U (num_repeat ba) gp)
                                         (take (Suc (block_indices ! nat (k - 1))) bas)) - 1 \<le> int i
                    \<longrightarrow> blocks m' ! i = blocks m ! i
                        \<and> all_trainable (block_parameters (blocks m' ! i))))))
     \<and> all_trainable (stem_parameters m)
     \<and> (\<forall>b \<in> set (blocks m). all_trainable (block_parameters b))"
proof -
  from EfficientNet_init_ok [OF assms(1), of U gp ofs] assms(2)
  have bl: "blocks m = concat (map (stage_blocks U gp) bas)"
    and st: "stem_parameters m = new_parameters [''0.weight'', ''1.weight'', ''1.bias'']"
    by auto
  have a: "k \<le> 0 \<longrightarrow> freeze m k = Inr m"
    by (simp add: freeze_nonpositive)
  have b: "1 \<le> k \<and> k \<le> 5 \<longrightarrow>
          (\<exists>m'. freeze m k = Inr m'
             \<and> all_frozen (stem_parameters m')
             \<and> length (blocks m') = length (blocks m)
             \<and> (\<forall>i < length (blocks m).
                   (int i < sum_list (map (\<lambda>ba. round_repeats U (num_repeat ba) gp)
                                         (take (Suc (block_indices ! nat (k - 1))) bas)) - 1
                    \<longrightarrow> blocks m' ! i = freeze_block (blocks m ! i)
                        \<and> all_frozen (block_parameters (blocks m' ! i)))
                 \<and> (sum_list (map (\<lambda>ba. round_repeats U (num_repeat ba) gp)
                                         (take (Suc (block_indices ! nat (k - 1))) bas)) - 1 \<le> int i
                    \<longrightarrow> blocks m' ! i = blocks m ! i
                        \<and> all_trainable (block_parameters (blocks m' ! i)))))"
    using freeze_effect_general [OF assms] by blast
  have c: "all_trainable (stem_parameters m)"
    by (simp add: st)
  have d: "\<forall>b \<in> set (blocks m). all_trainable (block_parameters b)"
    unfolding bl using constructed_blocks_trainable by blast
  from a b c d show ?thesis by blast
qed

lemma boundary_b0_res2:
  "sum_list (map (\<lambda>ba. round_repeats utils_b0 (num_repeat ba) global_params_b0)
               (take (Suc (block_indices ! nat (2 - 1))) blocks_args_b0)) - 1 = 2"
  by code_simp

lemma length_blocks_b0:
  "length (blocks (projr model_b0)) = 16"
  by code_simp

theorem freeze_effect_witness:
  "freeze (projr model_b0) 0 = Inr (projr model_b0)
   \<and> (\<exists>m'. freeze (projr model_b0) 2 = Inr m'
         \<and> all_frozen (stem_parameters m')
         \<and> all_frozen (block_parameters (blocks m' ! 0))
         \<and> all_frozen (block_parameters (blocks m' ! 1))
         \<and> blocks m' ! 2 = blocks (projr model_b0) ! 2
         \<and> all_trainable (block_parameters (blocks m' ! 2))
         \<and> all_trainable (block_parameters (blocks m' ! 15)))
   \<and> all_trainable (stem_parameters (projr model_b0))"
proof -
  have len: "7 \<le> length blocks_args_b0"
    by (simp add: length_b0)
  note t0 = freeze_effect [OF len model_b0_init, of 0]
  note t2 = freeze_effect [OF len model_b0_init, of 2]
  have k2: "1 \<le> (2::int) \<and> (2::int) \<le> 5" by simp
  from t2 [THEN conjunct2, THEN conjunct1, rule_format, OF k2]
  obtain m' where m':
      "freeze (projr model_b0) 2 = Inr m'"
      "all_frozen (stem_parameters m')"
      "\<forall>i < 16. (int i < 2 \<longrightarrow> blocks m' ! i = freeze_block (blocks (projr model_b0) ! i)
                        \<and> all_frozen (block_parameters (blocks m' ! i)))
             \<and> (2 \<le> int i \<longrightarrow> blocks m' ! i = blocks (projr model_b0) ! i
                        \<and> all_trainable (block_parameters (blocks m' ! i)))"
    unfolding boundary_b0_res2 length_blocks_b0 by (elim exE conjE)
  have a0: "(0::nat) < 16 \<and> int 0 < 2" by simp
  have a1: "(1::nat) < 16 \<and> int 1 < 2" by simp
  have a2: "(2::nat) < 16 \<and> 2 \<le> int 2" by simp
  have a15: "(15::nat) < 16 \<and> 2 \<le> int 15" by simp
  from m'(3) a0 have f0: "all_frozen (block_parameters (blocks m' ! 0))"
    by blast
  from m'(3) a1 have f1: "all_frozen (block_parameters (blocks m' ! 1))"
    by blast
  from m'(3) a2 have u2: "blocks m' ! 2 = blocks (projr model_b0) ! 2"
           "all_trainable (block_parameters (blocks m' ! 2))"
    by blast+
  from m'(3) a15 have u15: "all_trainable (block_parameters (blocks m' ! 15))"
    by blast
  have z: "freeze (projr model_b0) 0 = Inr (projr model_b0)"
    using t0 by simp
  have tr: "all_trainable (stem_parameters (projr model_b0))"
    using t0 by simp
  have ex: "\<exists>m'. freeze (projr model_b0) 2 = Inr m'
         \<and> all_frozen (stem_parameters m')
         \<and> all_frozen (block_parameters (blocks m' ! 0))
         \<and> all_frozen (block_parameters (blocks m' ! 1))
         \<and> blocks m' ! 2 = blocks (projr model_b0) ! 2
         \<and> all_trainable (block_parameters (blocks m' ! 2))
         \<and> all_trainable (block_parameters (blocks m' ! 15))"
    using m'(1,2) f0 f1 u2 u15 by (intro exI [of _ m'] conjI)
  from z ex tr show ?thesis by (intro conjI)
qed

text \<open>
  The claim as stated fails on EfficientNet-B0: freeze(2) freezes blocks 0 and 1 and
  nothing else, while the stages begin at blocks 0, 1, 3, 5, 8, 11 and 15. Block 1, the
  first block of the stage that yields res2, is frozen, and the frozen range ends at
  index 2, which is no stage's first block.
\<close>

theorem freeze_first_block_counterexample:
  "\<not> isl model_b0
   \<and> \<not> isl (freeze (projr model_b0) 2)
   \<and> frozen_flags (projr (freeze (projr model_b0) 2)) =
       [True, True, False, False, False, False, False, False,
        False, False, False, False, False, False, False, False]
   \<and> trainable_flags (projr (freeze (projr model_b0) 2)) =
       [False, False, True, True, True, True, True, True,
        True, True, True, True, True, True, True, True]
   \<and> stage_first_indices utils_b0 global_params_b0 blocks_args_b0 = [0, 1, 3, 5, 8, 11, 15]
   \<and> 2 \<notin> set (stage_first_indices utils_b0 global_params_b0 blocks_args_b0)"
  by code_simp

section \<open>Feature extraction\<close>

lemma block_drop_connect_rate_eq:
  "block_drop_connect_rate gp idx n =
     (case drop_connect_rate gp of
        None \<Rightarrow> None
      | Some r \<Rightarrow> Some (r * (of_nat idx / of_nat n)))"
  by (simp add: block_drop_connect_rate_def split: option.split)

text \<open>The four ways one iteration of the loop can go.\<close>

lemma run_blocks_block_raises:
  assumes "MBConvBlock_forward b x
             (block_drop_connect_rate (global_params m) idx (length (blocks m))) = Inl e"
  shows "run_blocks m idx (b # bs) x outs =
           ([(idx, block_drop_connect_rate (global_params m) idx (length (blocks m)))], Inl e)"
  using assms by (simp add: Let_def)

lemma run_blocks_lookup_raises:
  assumes "MBConvBlock_forward b x
             (block_drop_connect_rate (global_params m) idx (length (blocks m))) = Inr x'"
      and "out_indices_to_feature m (PyInt (int idx)) \<noteq> None"
      and "getitem (map_of (out_feature_indices m)) (PyInt (int idx)) = Inl e"
  shows "run_blocks m idx (b # bs) x outs =
           ([(idx, block_drop_connect_rate (global_params m) idx (length (blocks m)))], Inl e)"
  using assms by (simp add: Let_def)

lemma run_blocks_boundary:
  assumes "MBConvBlock_forward b x
             (block_drop_connect_rate (global_params m) idx (length (blocks m))) = Inr x'"
      and "out_indices_to_feature m (PyInt (int idx)) \<noteq> None"
      and "getitem (map_of (out_feature_indices m)) (PyInt (int idx)) = Inr name"
  shows "run_blocks m idx (b # bs) x outs =
           ((idx, block_drop_connect_rate (global_params m) idx (length (blocks m)))
              # fst (run_blocks m (Suc idx) bs x'
                       (if PyInt name \<in> set (out_features m)
                        then outs(PyInt name \<mapsto> x') else outs)),
            snd (run_blocks m (Suc idx) bs x'
                   (if PyInt name \<in> set (out_features m)
                    then outs(PyInt name \<mapsto> x') else outs)))"
  using assms by (simp add: Let_def case_prod_beta)

lemma run_blocks_inner:
  assumes "MBConvBlock_forward b x
             (block_drop_connect_rate (global_params m) idx (length (blocks m))) = Inr x'"
      and "out_indices_to_feature m (PyInt (int idx)) = None"
  shows "run_blocks m idx (b # bs) x outs =
           ((idx, block_drop_connect_rate (global_params m) idx (length (blocks m)))
              # fst (run_blocks m (Suc idx) bs x' outs),
            snd (run_blocks m (Suc idx) bs x' outs))"
  using assms by (simp add: Let_def case_prod_beta)

lemma run_blocks_log:
  "\<exists>k \<le> length bs.
     fst (run_blocks m idx bs x outs) =
       map (\<lambda>i. (i, block_drop_connect_rate (global_params m) i (length (blocks m))))
           [idx..<idx + k]"
proof (induction bs arbitrary: idx x outs)
  case Nil
  then show ?case by simp
next
  case (Cons b bs)
  let ?f = "\<lambda>i. (i, block_drop_connect_rate (global_params m) i (length (blocks m)))"
  have u: "[idx..<idx + Suc k] = idx # [Suc idx..<Suc idx + k]" for k
    using upt_conv_Cons [of idx "idx + Suc k"] by simp
  have stop: "\<exists>k \<le> length (b # bs). fst (run_blocks m idx (b # bs) x outs) = map ?f [idx..<idx + k]"
    if "fst (run_blocks m idx (b # bs) x outs) = [?f idx]"
    using that by (intro exI [of _ 1]) simp
  have continue: "\<exists>k \<le> length (b # bs). fst (run_blocks m idx (b # bs) x outs) = map ?f [idx..<idx + k]"
    if rec: "fst (run_blocks m idx (b # bs) x outs) = ?f idx # fst (run_blocks m (Suc idx) bs x' outs')"
    for x' outs'
  proof -
    from Cons.IH [of "Suc idx" x' outs'] obtain k where
      k: "k \<le> length bs"
         "fst (run_blocks m (Suc idx) bs x' outs') = map ?f [Suc idx..<Suc idx + k]"
      by blast
    have "fst (run_blocks m idx (b # bs) x outs) = map ?f [idx..<idx + Suc k]"
      unfolding rec k(2) by (simp only: u list.map)
    with k(1) show ?thesis
      by (intro exI [of _ "Suc k"]) simp
  qed
  show ?case
  proof (cases "MBConvBlock_forward b x
                  (block_drop_connect_rate (global_params m) idx (length (blocks m)))")
    case (Inl e)
    show ?thesis
      by (rule stop) (simp only: run_blocks_block_raises [OF Inl] fst_conv)
  next
    case (Inr x')
    show ?thesis
    proof (cases "out_indices_to_feature m (PyInt (int idx)) = None")
      case True
      show ?thesis
        by (rule continue) (simp only: run_blocks_inner [OF Inr True] fst_conv)
    next
      case False
      show ?thesis
      proof (cases "getitem (map_of (out_feature_indices m)) (PyInt (int idx))")
        case (Inl e)
        show ?thesis
          by (rule stop) (simp only: run_blocks_lookup_raises [OF Inr False Inl] fst_conv)
      next
        case name: (Inr name)
        show ?thesis
          by (rule continue) (simp only: run_blocks_boundary [OF Inr False name] fst_conv)
      qed
    qed
  qed
qed

lemma fst_extract_features_log:
  "fst (extract_features_log m x) =
     fst (run_blocks m 0 (blocks m) (apply_stem m x)
            (if PyStr ''stem'' \<in> set (out_features m)
             then [PyStr ''stem'' \<mapsto> apply_stem m x] else Map.empty))"
  by (simp add: extract_features_log_def Let_def case_prod_beta)

lemma snd_extract_features_log:
  "snd (extract_features_log m x) =
     (case snd (run_blocks m 0 (blocks m) (apply_stem m x)
                  (if PyStr ''stem'' \<in> set (out_features m)
                   then [PyStr ''stem'' \<mapsto> apply_stem m x] else Map.empty)) of
        Inl e \<Rightarrow> Inl e
      | Inr (x', outs) \<Rightarrow> Inr (Swish (BN (head_bn1 m) (Conv (conv_head m) x')), outs))"
  by (simp add: extract_features_log_def Let_def case_prod_beta)

lemma extract_features_log_eq:
  "\<exists>k \<le> length (blocks m).
     fst (extract_features_log m x) =
       map (\<lambda>i. (i, block_drop_connect_rate (global_params m) i (length (blocks m))))
           [0..<k]"
  using run_blocks_log [of "blocks m" m 0]
  by (simp add: fst_extract_features_log)

lemma scaled_rate_below:
  fixes r :: rat
  assumes "r \<noteq> 0" "idx < n"
  shows "r * (of_nat idx / of_nat n) \<noteq> r"
proof
  assume eq: "r * (of_nat idx / of_nat n) = r"
  from assms(2) have n: "(of_nat n :: rat) > 0" by simp
  from assms(2) have lt: "(of_nat idx :: rat) < of_nat n" by simp
  from eq have "r * (of_nat idx / of_nat n) = r * 1" by simp
  with assms(1) have "(of_nat idx / of_nat n :: rat) = 1"
    by (simp only: mult_cancel_left) simp
  with n have "(of_nat idx :: rat) = of_nat n"
    by (simp add: divide_eq_eq)
  with lt show False by simp
qed

text \<open>
  C3 (amended). The blocks that extract\_features calls are the blocks 0 to k-1 for some
  k, and the rate passed to the block at index idx is None when no rate is configured
  and otherwise the configured rate times idx divided by the number of blocks: 0 at the
  first block, and for a nonzero configured rate different from that rate at every
  index, the last included.
\<close>

theorem drop_connect_schedule:
  "(\<exists>k \<le> length (blocks m).
      fst (extract_features_log m x) =
        map (\<lambda>idx. (idx, case drop_connect_rate (global_params m) of
                             None \<Rightarrow> None
                           | Some r \<Rightarrow> Some (r * (of_nat idx / of_nat (length (blocks m))))))
            [0..<k])
   \<and> (\<forall>r idx. drop_connect_rate (global_params m) = Some r \<and> r \<noteq> 0
                  \<and> idx < length (blocks m)
        \<longrightarrow> r * (of_nat idx / of_nat (length (blocks m))) \<noteq> r)
   \<and> (\<forall>r. r * (of_nat (0::nat) / of_nat (length (blocks m))) = (0::rat))"
proof (intro conjI allI impI)
  show "\<exists>k \<le> length (blocks m).
      fst (extract_features_log m x) =
        map (\<lambda>idx. (idx, case drop_connect_rate (global_params m) of
                             None \<Rightarrow> None
                           | Some r \<Rightarrow> Some (r * (of_nat idx / of_nat (length (blocks m))))))
            [0..<k]"
    using extract_features_log_eq [of m x]
    by (simp only: block_drop_connect_rate_eq)
next
  fix r :: rat and idx
  assume "drop_connect_rate (global_params m) = Some r \<and> r \<noteq> 0 \<and> idx < length (blocks m)"
  then show "r * (of_nat idx / of_nat (length (blocks m))) \<noteq> r"
    using scaled_rate_below by blast
next
  fix r :: rat
  show "r * (of_nat (0::nat) / of_nat (length (blocks m))) = 0"
    by simp
qed

lemma log_small:
  "fst (extract_features_log (projr model_small) Input) = [(0, Some 0), (1, Some (1 / 32))]"
  by code_simp

lemma small_facts:
  "length (blocks (projr model_small)) = 8"
  "drop_connect_rate (global_params (projr model_small)) = Some (1 / 4)"
  by code_simp+

theorem drop_connect_schedule_witness:
  "fst (extract_features_log (projr model_small) Input) = [(0, Some 0), (1, Some (1 / 32))]
   \<and> (1 / 4 :: rat) * (of_nat (7::nat) / of_nat (length (blocks (projr model_small)))) \<noteq> 1 / 4"
proof -
  note t = drop_connect_schedule [of "projr model_small" Input]
  have h: "drop_connect_rate (global_params (projr model_small)) = Some (1 / 4)
           \<and> (1 / 4 :: rat) \<noteq> 0 \<and> (7::nat) < length (blocks (projr model_small))"
    by (simp add: small_facts)
  from t [THEN conjunct2, THEN conjunct1, rule_format, OF h] log_small
  show ?thesis by (intro conjI)
qed

text \<open>
  The claim as stated fails: with eight blocks and the rate 0.25 the block at index 1
  receives 0.25 * 1/8 = 1/32, not the 0.25 * 1/7 of a scale that reaches the maximum at
  the last block, and the rate computed for the last index 7 is 7/32, not 1/4.
\<close>

theorem drop_connect_reaches_maximum_counterexample:
  "\<not> isl model_small
   \<and> length (blocks (projr model_small)) = 8
   \<and> drop_connect_rate (global_params (projr model_small)) = Some (1 / 4)
   \<and> fst (extract_features_log (projr model_small) Input) = [(0, Some 0), (1, Some (1 / 32))]
   \<and> block_drop_connect_rate (global_params (projr model_small)) 7 8 = Some (7 / 32)
   \<and> block_drop_connect_rate (global_params (projr model_small)) 7 8 \<noteq> Some (1 / 4)
   \<and> (1 / 32 :: rat) \<noteq> 1 / 4 * (1 / 7)"
  by code_simp

section \<open>The feature lookup of extract\_features\<close>

lemma invert_items_keeps:
  "d key \<noteq> None \<Longrightarrow> invert_items items d key \<noteq> None"
  by (induction items arbitrary: d) auto

lemma invert_items_dom:
  "(k, v) \<in> set items \<Longrightarrow> invert_items items d (PyInt v) \<noteq> None"
proof (induction items arbitrary: d)
  case Nil
  then show ?case by simp
next
  case (Cons kv items)
  obtain k' v' where kv: "kv = (k', v')" by (cases kv)
  show ?case
  proof (cases "(k, v) = kv")
    case True
    then have "(d(PyInt v' \<mapsto> k')) (PyInt v) \<noteq> None"
      by (simp add: kv)
    then show ?thesis
      unfolding kv invert_items.simps by (rule invert_items_keeps)
  next
    case False
    with Cons.prems have "(k, v) \<in> set items" by simp
    then show ?thesis
      unfolding kv invert_items.simps by (rule Cons.IH)
  qed
qed

lemma constructed_block_form:
  assumes "b \<in> set (concat (map (stage_blocks U gp) bas))"
  shows "\<exists>ba. b = MBConvBlock_init ba gp"
proof -
  from assms obtain ba where "b \<in> set (stage_blocks U gp ba)" by auto
  then show ?thesis
    by (auto simp: stage_blocks_eq)
qed

lemma run_blocks_keyerror:
  assumes keys: "\<And>i. map_of (out_feature_indices m) (PyInt i) = None"
      and fw: "\<And>b x r. b \<in> set bs \<Longrightarrow> \<exists>y. MBConvBlock_forward b x r = Inr y"
      and j: "idx \<le> j" "j < idx + length bs"
             "out_indices_to_feature m (PyInt (int j)) \<noteq> None"
  shows "\<exists>j'. snd (run_blocks m idx bs x outs) = Inl (KeyError (PyInt (int j')))"
  using fw j
proof (induction bs arbitrary: idx x outs)
  case Nil
  then show ?case by simp
next
  case (Cons b bs)
  from Cons.prems(1) [of b] obtain x' where
    x': "MBConvBlock_forward b x
           (block_drop_connect_rate (global_params m) idx (length (blocks m))) = Inr x'"
    by auto
  show ?case
  proof (cases "out_indices_to_feature m (PyInt (int idx)) = None")
    case True
    with Cons.prems(4) have "idx \<noteq> j" by auto
    with Cons.prems(2,3) have range: "Suc idx \<le> j" "j < Suc idx + length bs" by simp_all
    have "\<exists>j'. snd (run_blocks m (Suc idx) bs x' outs) = Inl (KeyError (PyInt (int j')))"
      using Cons.prems(1) range Cons.prems(4) by (intro Cons.IH) auto
    then show ?thesis
      by (simp only: run_blocks_inner [OF x' True] snd_conv)
  next
    case False
    have "getitem (map_of (out_feature_indices m)) (PyInt (int idx))
            = Inl (KeyError (PyInt (int idx)))"
      by (simp add: getitem_def keys)
    then have "snd (run_blocks m idx (b # bs) x outs) = Inl (KeyError (PyInt (int idx)))"
      by (simp only: run_blocks_lookup_raises [OF x' False] snd_conv)
    then show ?thesis ..
  qed
qed

text \<open>
  Every backbone the constructor returns raises KeyError in extract\_features, and so in
  forward, for every input and every configured out\_features, as soon as the first
  stage has a scaled repeat count of at least 1: line 219 indexes the name-keyed
  dictionary with the integer block index.
\<close>

lemma extract_features_raises:
  assumes len: "7 \<le> length bas"
      and init: "EfficientNet_init U bas gp ofs = Inr m"
      and first: "1 \<le> round_repeats U (num_repeat (hd bas)) gp"
  shows "\<exists>j. extract_features m x = Inl (KeyError (PyInt (int j)))
            \<and> EfficientNet_forward m x = Inl (KeyError (PyInt (int j)))"
proof -
  let ?ends = "block_end_indices U gp bas"
  let ?r0 = "round_repeats U (num_repeat (hd bas)) gp"
  from EfficientNet_init_ok [OF len, of U gp ofs] init
  have bl: "blocks m = concat (map (stage_blocks U gp) bas)"
    and ofi: "out_feature_indices m =
               [(PyStr ''res1'', ?ends ! 0), (PyStr ''res2'', ?ends ! 1), (PyStr ''res3'', ?ends ! 2),
                (PyStr ''res4'', ?ends ! 4), (PyStr ''res5'', ?ends ! 6)]"
    and inv: "out_indices_to_feature m = invert_items (out_feature_indices m) Map.empty"
    by auto
  from len obtain ba0 rest where bas: "bas = ba0 # rest" by (cases bas) auto
  have e0: "?ends ! 0 = ?r0 - 1"
    using nth_block_end_indices [of 0 bas U gp] by (simp add: bas)
  have keys: "map_of (out_feature_indices m) (PyInt i) = None" for i
    by (simp add: ofi)
  have "(PyStr ''res1'', ?ends ! 0) \<in> set (out_feature_indices m)"
    by (simp add: ofi)
  then have "out_indices_to_feature m (PyInt (?ends ! 0)) \<noteq> None"
    unfolding inv by (rule invert_items_dom)
  with first have hit: "out_indices_to_feature m (PyInt (int (nat (?r0 - 1)))) \<noteq> None"
    by (simp add: e0)
  have "sum_list (map (\<lambda>ba. round_repeats U (num_repeat ba) gp) (take 1 bas))
          \<le> sum_list (map (\<lambda>ba. max 1 (round_repeats U (num_repeat ba) gp)) bas)"
    by (rule sum_take_le)
  then have "?r0 \<le> int (length (blocks m))"
    unfolding bl length_concat_stage_blocks by (simp add: bas)
  with first have below: "nat (?r0 - 1) < 0 + length (blocks m)" by linarith
  have fw: "\<exists>y. MBConvBlock_forward b x r = Inr y" if "b \<in> set (blocks m)" for b x r
  proof -
    from that obtain ba where "b = MBConvBlock_init ba gp"
      unfolding bl using constructed_block_form by blast
    then show ?thesis
      using MBConvBlock_forward_init [of ba gp x r] by blast
  qed
  from run_blocks_keyerror [of m "blocks m" 0 "nat (?r0 - 1)", OF keys fw _ below hit]
  obtain j where
    "snd (run_blocks m 0 (blocks m) (apply_stem m x)
            (if PyStr ''stem'' \<in> set (out_features m)
             then [PyStr ''stem'' \<mapsto> apply_stem m x] else Map.empty))
       = Inl (KeyError (PyInt (int j)))"
    by blast
  then have "extract_features m x = Inl (KeyError (PyInt (int j)))"
    by (simp add: extract_features_def snd_extract_features_log)
  then show ?thesis
    by (intro exI [of _ j]) (simp add: EfficientNet_forward_def)
qed

lemma raises_b0:
  "isl (extract_features (projr model_b0) Input)
   \<and> projl (extract_features (projr model_b0) Input) = KeyError (PyInt 0)
   \<and> isl (EfficientNet_forward (projr model_b0) Input)
   \<and> projl (EfficientNet_forward (projr model_b0) Input) = KeyError (PyInt 0)
   \<and> out_features (projr model_b0) = [PyStr ''res5'']"
  by code_simp

text \<open>
  C1 (the code departs from the claim). On EfficientNet-B0 built with out\_features =
  ["res5"], extract\_features and forward raise KeyError(0) at the first block instead
  of returning a mapping whose only key is res5.
\<close>

theorem extract_features_b0_raises:
  "EfficientNet_init utils_b0 blocks_args_b0 global_params_b0 (Some [PyStr ''res5''])
     = Inr (projr model_b0)
   \<and> out_features (projr model_b0) = [PyStr ''res5'']
   \<and> extract_features (projr model_b0) Input = Inl (KeyError (PyInt 0))
   \<and> EfficientNet_forward (projr model_b0) Input = Inl (KeyError (PyInt 0))"
proof -
  have a: "extract_features (projr model_b0) Input = Inl (KeyError (PyInt 0))"
    using raises_b0 sum.collapse(1) [of "extract_features (projr model_b0) Input"] by simp
  have b: "EfficientNet_forward (projr model_b0) Input = Inl (KeyError (PyInt 0))"
    using raises_b0 sum.collapse(1) [of "EfficientNet_forward (projr model_b0) Input"] by simp
  from model_b0_init raises_b0 a b show ?thesis by blast
qed

section \<open>The stem of a model built by from\_pretrained\<close>

lemma init_stem:
  assumes "EfficientNet_init U bas gp ofs = Inr m"
  shows "in_channels (stem_conv (stem m)) = 3"
  using assms
  by (auto simp: EfficientNet_init_def Let_def split: list.splits sum.splits prod.splits)

text \<open>
  Whatever channel count is requested, the convolution that extract\_features applies to
  its input keeps three input channels.
\<close>

lemma from_pretrained_stem:
  assumes "from_pretrained U model_name advprop n_classes in_ch ofs = Inr m"
  shows "in_channels (stem_conv (stem m)) = 3"
proof -
  from assms obtain m0 where
    m0: "from_name U model_name (Some [PyStr ''num_classes'' \<mapsto> n_classes]) ofs = Inr m0"
    and m: "m = m0 \<or> (\<exists>c. m = m0\<lparr> conv_stem_attr := Some c \<rparr>)"
    by (auto simp: from_pretrained_def split: sum.splits option.splits if_splits)
  from m0 obtain bas gp where "EfficientNet_init U bas gp ofs = Inr m0"
    by (auto simp: from_name_def split: sum.splits)
  then have "in_channels (stem_conv (stem m0)) = 3"
    by (rule init_stem)
  with m show ?thesis by auto
qed

text \<open>
  C4 (the code departs from the claim). from\_pretrained with in\_channels = 1 returns a
  model whose stem, the one extract\_features applies, still takes 3 input channels; the
  1-channel convolution is stored in the unused attribute \_conv\_stem.
\<close>

theorem from_pretrained_gray_keeps_rgb_stem:
  "\<not> isl model_gray
   \<and> in_channels (stem_conv (stem (projr model_gray))) = 3
   \<and> map_option in_channels (conv_stem_attr (projr model_gray)) = Some 1
   \<and> apply_stem (projr model_gray) Input =
       Swish (BN \<lparr> num_features = 32, momentum = 1 / 100, eps = 1 / 1000 \<rparr>
                (Conv \<lparr> in_channels = 3, out_channels = 32, conv_kernel_size = 3,
                        conv_stride = 2, groups = 1, bias = False,
                        static_image_size = Some 224 \<rparr> Input))"
proof -
  have name: "check_model_name_is_valid ''efficientnet-b0'' = Inr ()"
    by (rule check_valid) (simp add: valid_models_eq)
  have fn: "from_name utils_b0 ''efficientnet-b0'' (Some [PyStr ''num_classes'' \<mapsto> 1000]) None
              = EfficientNet_init utils_b0 blocks_args_b0 global_params_b0 None"
    by (simp add: from_name_def name utils_b0_def override_num_classes_def global_params_b0_def)
  have len: "7 \<le> length blocks_args_b0"
    by (simp add: length_b0)
  have rf: "round_filters utils_b0 32 global_params_b0 = 32"
    by code_simp
  from EfficientNet_init_ok [OF len, of utils_b0 global_params_b0 None]
  obtain m0 where
    m0: "EfficientNet_init utils_b0 blocks_args_b0 global_params_b0 None = Inr m0"
    and st: "stem m0 =
               \<lparr> stem_conv =
                   \<lparr> in_channels = 3, out_channels = round_filters utils_b0 32 global_params_b0,
                     conv_kernel_size = 3, conv_stride = 2, groups = 1, bias = False,
                     static_image_size = image_size global_params_b0 \<rparr>,
                 stem_bn = \<lparr> num_features = round_filters utils_b0 32 global_params_b0,
                             momentum = 1 - batch_norm_momentum global_params_b0,
                             eps = batch_norm_epsilon global_params_b0 \<rparr> \<rparr>"
    and gp: "global_params m0 = global_params_b0"
    by (elim exE conjE)
  have gray: "model_gray =
      Inr (m0\<lparr> conv_stem_attr :=
                Some \<lparr> in_channels = 1, out_channels = round_filters utils_b0 32 (global_params m0),
                       conv_kernel_size = 3, conv_stride = 2, groups = 1, bias = False,
                       static_image_size = image_size (global_params m0) \<rparr> \<rparr>)"
    unfolding model_gray_def from_pretrained_def fn m0
    by (simp add: utils_b0_def)
  have stem_gray: "stem (projr model_gray) = stem m0"
    by (simp add: gray)
  have 1: "\<not> isl model_gray"
    by (simp add: gray)
  have 2: "in_channels (stem_conv (stem (projr model_gray))) = 3"
    by (simp add: stem_gray st)
  have 3: "map_option in_channels (conv_stem_attr (projr model_gray)) = Some 1"
    by (simp add: gray)
  have 4: "apply_stem (projr model_gray) Input =
       Swish (BN \<lparr> num_features = 32, momentum = 1 / 100, eps = 1 / 1000 \<rparr>
                (Conv \<lparr> in_channels = 3, out_channels = 32, conv_kernel_size = 3,
                        conv_stride = 2, groups = 1, bias = False,
                        static_image_size = Some 224 \<rparr> Input))"
    unfolding apply_stem_def stem_gray st rf
    by (simp add: global_params_b0_def)
  from 1 2 3 4 show ?thesis by (intro conjI)
qed

end
